theory Spec2Isabelle
  imports Main "HOL-Library.Word"
begin

section \<open>JavaScript values\<close>

text \<open>
  A JavaScript string is a sequence of UTF-16 code units: \<open>===\<close> compares the sequences,
  \<open>.length\<close> counts the units and the relational operators compare them
  lexicographically.
  ASCII literals of the source are written \<open>js ''...''\<close>; the Chinese literals are given
  by their code units.
\<close>

type_synonym jsstring = "16 word list"

definition js :: "string \<Rightarrow> jsstring" where
  "js s = map (\<lambda>c. of_nat (of_char c)) s"

text \<open>Truthiness of a string: only the empty string is falsy.\<close>

definition truthy :: "jsstring \<Rightarrow> bool" where
  "truthy s = (s \<noteq> [])"

text \<open>\<open>Number.prototype.toString\<close> of a non-negative integer (template literals use it).\<close>

fun decimal :: "nat \<Rightarrow> jsstring" where
  "decimal n = (if n < 10 then [of_nat (48 + n)]
                else decimal (n div 10) @ [of_nat (48 + n mod 10)])"

declare decimal.simps [simp del]

text \<open>Reading a digit string back, used to show that \<open>decimal\<close> is injective.\<close>

definition undecimal :: "jsstring \<Rightarrow> nat" where
  "undecimal s = foldl (\<lambda>a c. 10 * a + (unat c - 48)) 0 s"

text \<open>
  The errors of the source are \<open>Error\<close> objects carrying a message; calling a property
  that is not a function raises a \<open>TypeError\<close>.
\<close>

datatype error = Error jsstring | TypeError jsstring

text \<open>A JavaScript number, as far as the handlers need it: an integer or \<open>NaN\<close>.\<close>

datatype jsnum = Num int | NaN

text \<open>\<open>undefined + 1\<close> is \<open>NaN\<close>, \<open>NaN + 1\<close> is \<open>NaN\<close>.\<close>

fun plus_one :: "jsnum option \<Rightarrow> jsnum" where
  "plus_one None = NaN"
| "plus_one (Some NaN) = NaN"
| "plus_one (Some (Num n)) = Num (n + 1)"

text \<open>
  The value of a property read with \<open>a[sortKey]\<close>. \<open>'a\<close> is the type of the values the
  source declares \<open>any\<close>.
\<close>

datatype 'a jsval =
  Undefined | Str jsstring | Bool bool | Date int | Arr "jsstring list" | Number jsnum | Any 'a

fun str_lt :: "jsstring \<Rightarrow> jsstring \<Rightarrow> bool" where
  "str_lt [] [] = False"
| "str_lt [] (y # ys) = True"
| "str_lt (x # xs) [] = False"
| "str_lt (x # xs) (y # ys) = (x < y \<or> (x = y \<and> str_lt xs ys))"

text \<open>\<open>Array.prototype.toString\<close> of an array of strings: the elements joined by commas.\<close>

fun join_comma :: "jsstring list \<Rightarrow> jsstring" where
  "join_comma [] = []"
| "join_comma [x] = x"
| "join_comma (x # y # ys) = x @ js '','' @ join_comma (y # ys)"

text \<open>
  The relational comparison \<open>a < b\<close> of two values read from the same property
  (\<open>a > b\<close> is \<open>b < a\<close>). Strings compare by code units, arrays as their strings, dates and
  booleans as numbers; any comparison with \<open>undefined\<close> or \<open>NaN\<close> is false. Values of
  type \<open>any\<close> are compared by the runtime, \<open>lt_any\<close>.
\<close>

fun js_lt :: "('a \<Rightarrow> 'a \<Rightarrow> bool) \<Rightarrow> 'a jsval \<Rightarrow> 'a jsval \<Rightarrow> bool" where
  "js_lt lt (Str a) (Str b) = str_lt a b"
| "js_lt lt (Arr a) (Arr b) = str_lt (join_comma a) (join_comma b)"
| "js_lt lt (Bool a) (Bool b) = (\<not> a \<and> b)"
| "js_lt lt (Date a) (Date b) = (a < b)"
| "js_lt lt (Number (Num a)) (Number (Num b)) = (a < b)"
| "js_lt lt (Any a) (Any b) = lt a b"
| "js_lt lt _ _ = False"

text \<open>\<open>String.prototype.includes\<close>: the argument occurs as a contiguous substring.\<close>

fun str_includes :: "jsstring \<Rightarrow> jsstring \<Rightarrow> bool" where
  "str_includes [] t = (t = [])"
| "str_includes (c # s) t = (take (length t) (c # s) = t \<or> str_includes s t)"

text \<open>\<open>Array.prototype.slice(start, end)\<close> for non-negative integer arguments.\<close>

definition array_slice :: "'b list \<Rightarrow> nat \<Rightarrow> nat \<Rightarrow> 'b list" where
  "array_slice xs start end' = drop start (take end' xs)"

text \<open>\<open>Array.prototype.findIndex\<close>, with \<open>None\<close> for \<open>-1\<close>.\<close>

fun find_index :: "('b \<Rightarrow> bool) \<Rightarrow> 'b list \<Rightarrow> nat option" where
  "find_index P [] = None"
| "find_index P (x # xs) =
     (if P x then Some 0 else map_option Suc (find_index P xs))"

text \<open>
  A \<open>Map\<close> keeps its entries in insertion order; \<open>set\<close> replaces the value of a
  present key in place and appends an absent one.
\<close>

fun map_set :: "('k \<times> 'v) list \<Rightarrow> 'k \<Rightarrow> 'v \<Rightarrow> ('k \<times> 'v) list" where
  "map_set [] k v = [(k, v)]"
| "map_set ((k', v') # m) k v =
     (if k' = k then (k, v) # m else (k', v') # map_set m k v)"

definition map_values :: "('k \<times> 'v) list \<Rightarrow> 'v list" where
  "map_values m = map snd m"

definition map_get :: "('k \<times> 'v) list \<Rightarrow> 'k \<Rightarrow> 'v option" where
  "map_get m k = map_of m k"

text \<open>
  What the volatile backend takes from the runtime: \<open>Array.prototype.sort\<close> (the engine's
  algorithm, driven by the comparator it is given), \<open>String.prototype.toLowerCase\<close> and
  the comparison of \<open>any\<close> values.
\<close>

record ('r, 'a) runtime =
  array_sort :: "('r \<Rightarrow> 'r \<Rightarrow> int) \<Rightarrow> 'r list \<Rightarrow> 'r list"
  toLowerCase :: "jsstring \<Rightarrow> jsstring"
  lt_any :: "'a \<Rightarrow> 'a \<Rightarrow> bool"

section \<open>The volatile backend (memoryStore.ts)\<close>

subsection \<open>Data\<close>

record Preferences =
  language :: jsstring
  theme :: jsstring
  aiModels :: "jsstring list"
  contentTypes :: "jsstring list"

record Profile =
  displayName :: jsstring
  bio :: jsstring
  institution :: jsstring
  subjects :: "jsstring list"
  preferences :: Preferences

text \<open>Interface \<open>MemoryUser\<close>; \<open>u_id\<close> is the property \<open>_id\<close>, dates are milliseconds.\<close>

record MemoryUser =
  u_id :: jsstring
  username :: jsstring
  email :: jsstring
  password :: jsstring
  role :: jsstring
  profile :: Profile
  u_createdAt :: int
  u_updatedAt :: int
  lastLoginAt :: "int option"

text \<open>The argument object of \<open>createUser\<close>.\<close>

record UserData =
  d_username :: jsstring
  d_email :: jsstring
  d_password :: jsstring
  d_role :: jsstring

text \<open>
  Interface \<open>MemoryResource\<close>; \<open>r_id\<close> is the property \<open>_id\<close>. The interface declares
  no \<open>views\<close>: \<open>views_prop\<close> is that property of the stored object, absent until some
  code writes it.
\<close>

record 'a MemoryResource =
  r_id :: jsstring
  title :: jsstring
  description :: jsstring
  content :: 'a
  contentType :: jsstring
  category :: jsstring
  tags :: "jsstring list"
  creator :: jsstring
  isPublic :: bool
  metadata :: 'a
  createdAt :: int
  updatedAt :: int
  views_prop :: "jsnum option"

text \<open>
  The fields of class \<open>MemoryStore\<close> that the operations below use (the list of
  generation results is used by other handlers only).
\<close>

record 'a MemoryStore =
  users :: "(jsstring \<times> MemoryUser) list"
  userIdCounter :: nat
  resourceIdCounter :: nat
  resources :: "'a MemoryResource list"

text \<open>The instance created by \<open>new MemoryStore()\<close>.\<close>

definition new_MemoryStore :: "'a MemoryStore" where
  "new_MemoryStore = \<lparr>users = [], userIdCounter = 1, resourceIdCounter = 1, resources = []\<rparr>"

subsection \<open>Accounts\<close>

definition generateUserId :: "'a MemoryStore \<Rightarrow> jsstring \<times> 'a MemoryStore" where
  "generateUserId s =
     (js ''user_'' @ decimal (userIdCounter s), s\<lparr>userIdCounter := userIdCounter s + 1\<rparr>)"

definition generateResourceId :: "'a MemoryStore \<Rightarrow> jsstring \<times> 'a MemoryStore" where
  "generateResourceId s =
     (js ''resource_'' @ decimal (resourceIdCounter s),
      s\<lparr>resourceIdCounter := resourceIdCounter s + 1\<rparr>)"

text \<open>The message of the error that \<open>createUser\<close> throws.\<close>

definition msg_user_exists :: jsstring where
  "msg_user_exists = [0x7528, 0x6237, 0x540d, 0x6216, 0x90ae, 0x7bb1, 0x5df2, 0x5b58, 0x5728]"

text \<open>
  \<open>createUser\<close> is an \<open>async\<close> function with one \<open>await\<close>, that of
  \<open>bcrypt.hash\<close>. It therefore runs in two segments, and other requests may run between
  them. The first segment scans the users and throws when one has the email or the
  username.
\<close>

definition createUser_scan :: "'a MemoryStore \<Rightarrow> UserData \<Rightarrow> error option" where
  "createUser_scan s userData =
     (let existingUser =
            find (\<lambda>user. email user = d_email userData \<or> username user = d_username userData)
              (map_values (users s))
      in case existingUser of
           Some _ \<Rightarrow> Some (Error msg_user_exists)
         | None \<Rightarrow> None)"

text \<open>
  The second segment runs when the hash has arrived, on the store as it is then: it takes
  the next identifier, builds the user and puts it into the map. \<open>t1\<close> and \<open>t2\<close> are the
  two readings of the clock.
\<close>

definition createUser_insert ::
  "jsstring \<Rightarrow> int \<Rightarrow> int \<Rightarrow> 'a MemoryStore \<Rightarrow> UserData \<Rightarrow> MemoryUser \<times> 'a MemoryStore" where
  "createUser_insert hashedPassword t1 t2 s userData =
     (let (new_id, s1) = generateUserId s;
          user = \<lparr>u_id = new_id,
                  username = d_username userData,
                  email = d_email userData,
                  password = hashedPassword,
                  role = d_role userData,
                  profile = \<lparr>displayName = d_username userData, bio = [],
                              institution = [], subjects = [],
                              preferences = \<lparr>language = js ''zh-CN'',
                                               theme = js ''light'',
                                               aiModels = [], contentTypes = []\<rparr>\<rparr>,
                  u_createdAt = t1, u_updatedAt = t2, lastLoginAt = None\<rparr>
      in (user, s1\<lparr>users := map_set (users s1) (u_id user) user\<rparr>))"

text \<open>
  A call in flight: before its scan, waiting for the hash, returned or thrown.
  \<open>resume\<close> runs the next segment of a call on the current store; \<open>hash\<close> is
  \<open>bcrypt.hash\<close> with ten salt rounds.
\<close>

datatype call = Scanning UserData | Hashing UserData | Returned MemoryUser | Thrown error

fun resume ::
  "(jsstring \<Rightarrow> jsstring) \<Rightarrow> int \<Rightarrow> int \<Rightarrow> 'a MemoryStore \<Rightarrow> call \<Rightarrow> call \<times> 'a MemoryStore" where
  "resume hash t1 t2 s (Scanning userData) =
     (case createUser_scan s userData of
        Some e \<Rightarrow> (Thrown e, s)
      | None \<Rightarrow> (Hashing userData, s))"
| "resume hash t1 t2 s (Hashing userData) =
     (let (user, s') = createUser_insert (hash (d_password userData)) t1 t2 s userData
      in (Returned user, s'))"
| "resume hash t1 t2 s (Returned user) = (Returned user, s)"
| "resume hash t1 t2 s (Thrown e) = (Thrown e, s)"

text \<open>
  Two calls on one store. The event loop runs one segment at a time; a schedule says
  whose segment runs next.
\<close>

datatype turn = First | Second

fun run_calls ::
  "(jsstring \<Rightarrow> jsstring) \<Rightarrow> int \<Rightarrow> int \<Rightarrow> turn list \<Rightarrow> call \<times> call \<times> 'a MemoryStore
     \<Rightarrow> call \<times> call \<times> 'a MemoryStore" where
  "run_calls hash t1 t2 [] st = st"
| "run_calls hash t1 t2 (First # schedule) (a, b, s) =
     (let (a', s') = resume hash t1 t2 s a in run_calls hash t1 t2 schedule (a', b, s'))"
| "run_calls hash t1 t2 (Second # schedule) (a, b, s) =
     (let (b', s') = resume hash t1 t2 s b in run_calls hash t1 t2 schedule (a, b', s'))"

text \<open>\<open>createUser\<close> as one call whose two segments no other request separates.\<close>

definition createUser ::
  "(jsstring \<Rightarrow> jsstring) \<Rightarrow> int \<Rightarrow> int \<Rightarrow> 'a MemoryStore \<Rightarrow> UserData
     \<Rightarrow> (error + MemoryUser) \<times> 'a MemoryStore" where
  "createUser hash t1 t2 s userData =
     (case createUser_scan s userData of
        Some e \<Rightarrow> (Inl e, s)
      | None \<Rightarrow>
          (let (user, s') = createUser_insert (hash (d_password userData)) t1 t2 s userData
           in (Inr user, s')))"

definition findUserByEmail :: "'a MemoryStore \<Rightarrow> jsstring \<Rightarrow> MemoryUser option" where
  "findUserByEmail s e = find (\<lambda>user. email user = e) (map_values (users s))"

definition findUserById :: "'a MemoryStore \<Rightarrow> jsstring \<Rightarrow> MemoryUser option" where
  "findUserById s i = map_get (users s) i"

text \<open>
  \<open>updateUser\<close>; \<open>merge\<close> is the spread of \<open>updateData\<close> over the stored user.
\<close>

definition updateUser ::
  "int \<Rightarrow> 'a MemoryStore \<Rightarrow> jsstring \<Rightarrow> (MemoryUser \<Rightarrow> MemoryUser)
     \<Rightarrow> MemoryUser option \<times> 'a MemoryStore" where
  "updateUser now s i merge =
     (case map_get (users s) i of
        None \<Rightarrow> (None, s)
      | Some user \<Rightarrow>
          (let updatedUser = (merge user)\<lparr>u_updatedAt := now\<rparr>
           in (Some updatedUser, s\<lparr>users := map_set (users s) i updatedUser\<rparr>)))"

definition updateUserPassword ::
  "(jsstring \<Rightarrow> jsstring) \<Rightarrow> int \<Rightarrow> 'a MemoryStore \<Rightarrow> jsstring \<Rightarrow> jsstring
     \<Rightarrow> bool \<times> 'a MemoryStore" where
  "updateUserPassword hash now s i newPassword =
     (case map_get (users s) i of
        None \<Rightarrow> (False, s)
      | Some user \<Rightarrow>
          (let hashedPassword = hash newPassword;
               updatedUser = user\<lparr>password := hashedPassword, u_updatedAt := now\<rparr>
           in (True, s\<lparr>users := map_set (users s) i updatedUser\<rparr>)))"

definition clear :: "'a MemoryStore \<Rightarrow> 'a MemoryStore" where
  "clear s = s\<lparr>users := [], userIdCounter := 1\<rparr>"

text \<open>
  The counter starts at 1 and the keys of the user map are identifiers handed out so far:
  \<open>user_n\<close> for \<open>1 \<le> n < userIdCounter\<close>, each at most once.
\<close>

definition store_inv :: "'a MemoryStore \<Rightarrow> bool" where
  "store_inv s \<longleftrightarrow>
     1 \<le> userIdCounter s \<and>
     distinct (map fst (users s)) \<and>
     (\<forall>k \<in> set (map fst (users s)).
        k \<in> set (map (\<lambda>n. js ''user_'' @ decimal n) [1 ..< userIdCounter s]))"

subsection \<open>Resources\<close>

text \<open>
  \<open>createResource\<close>. The argument has the fields of a resource except \<open>_id\<close>,
  \<open>createdAt\<close> and \<open>updatedAt\<close>, which are set here; the JSON round trip returns a
  copy of the plain data it is given.
\<close>

definition createResource ::
  "int \<Rightarrow> int \<Rightarrow> 'a MemoryStore \<Rightarrow> 'a MemoryResource \<Rightarrow> 'a MemoryResource \<times> 'a MemoryStore" where
  "createResource t1 t2 s resourceData =
     (let clonedData = resourceData;
          (new_id, s1) = generateResourceId s;
          resource = clonedData\<lparr>r_id := new_id, createdAt := t1, updatedAt := t2\<rparr>
      in (resource, s1\<lparr>resources := resources s1 @ [resource]\<rparr>))"

text \<open>
  The query object: each property is absent (\<open>None\<close>) or present. \<open>q_or\<close> is
  \<open>$or\<close>, a list of filter-sets; \<open>q_text\<close> is \<open>$text\<close>, an object with the optional
  property \<open>$search\<close>.
\<close>

record OrCondition =
  c_creator :: "jsstring option"
  c_isPublic :: "bool option"

record TextQuery =
  search :: "jsstring option"

record Query =
  q_creator :: "jsstring option"
  q_category :: "jsstring option"
  q_contentType :: "jsstring option"
  q_isPublic :: "bool option"
  q_or :: "OrCondition list option"
  q_text :: "TextQuery option"

text \<open>
  The options object. \<open>sort'\<close> is the object \<open>sort\<close>, given by its entries in the order of
  \<open>Object.keys\<close>; \<open>skip\<close> and \<open>limit\<close> are non-negative integers.
\<close>

record Options =
  sort' :: "(jsstring \<times> int) list option"
  skip :: "nat option"
  limit :: "nat option"

definition no_options :: Options where
  "no_options = \<lparr>sort' = None, skip = None, limit = None\<rparr>"

text \<open>Truthiness of an optional string and of an optional number.\<close>

fun truthy_opt :: "jsstring option \<Rightarrow> bool" where
  "truthy_opt None = False"
| "truthy_opt (Some v) = truthy v"

fun truthy_num :: "nat option \<Rightarrow> bool" where
  "truthy_num None = False"
| "truthy_num (Some n) = (n \<noteq> 0)"

text \<open>The property \<open>r[key]\<close> of a stored resource.\<close>

definition get_field :: "jsstring \<Rightarrow> 'a MemoryResource \<Rightarrow> 'a jsval" where
  "get_field key r =
     (if key = js ''_id'' then Str (r_id r)
      else if key = js ''title'' then Str (title r)
      else if key = js ''description'' then Str (description r)
      else if key = js ''content'' then Any (content r)
      else if key = js ''contentType'' then Str (contentType r)
      else if key = js ''category'' then Str (category r)
      else if key = js ''tags'' then Arr (tags r)
      else if key = js ''creator'' then Str (creator r)
      else if key = js ''isPublic'' then Bool (isPublic r)
      else if key = js ''metadata'' then Any (metadata r)
      else if key = js ''createdAt'' then Date (createdAt r)
      else if key = js ''updatedAt'' then Date (updatedAt r)
      else if key = js ''views'' then (case views_prop r of None \<Rightarrow> Undefined | Some n \<Rightarrow> Number n)
      else Undefined)"

text \<open>The comparator that \<open>findResources\<close> passes to \<open>sort\<close>.\<close>

definition compareFn ::
  "('a \<Rightarrow> 'a \<Rightarrow> bool) \<Rightarrow> jsstring \<Rightarrow> int option \<Rightarrow> 'a MemoryResource \<Rightarrow> 'a MemoryResource \<Rightarrow> int" where
  "compareFn lt sortKey sortOrder a b =
     (let aVal = get_field sortKey a;
          bVal = get_field sortKey b
      in if sortOrder = Some 1 then (if js_lt lt bVal aVal then 1 else -1)
         else (if js_lt lt aVal bVal then 1 else -1))"

text \<open>One filter-set of \<open>$or\<close> against one resource (the callback of \<open>some\<close>).\<close>

definition or_condition :: "'a MemoryResource \<Rightarrow> OrCondition \<Rightarrow> bool" where
  "or_condition resource condition =
     (if truthy_opt (c_creator condition) then Some (creator resource) = c_creator condition
      else if c_isPublic condition \<noteq> None then Some (isPublic resource) = c_isPublic condition
      else False)"

definition text_match :: "(jsstring \<Rightarrow> jsstring) \<Rightarrow> jsstring \<Rightarrow> 'a MemoryResource \<Rightarrow> bool" where
  "text_match lower searchTerm r =
     (str_includes (lower (title r)) searchTerm \<or>
      str_includes (lower (description r)) searchTerm \<or>
      list_ex (\<lambda>tag. str_includes (lower tag) searchTerm) (tags r))"

text \<open>
  \<open>findResources\<close> runs three stages on a copy of the stored list. The first applies
  the filters of the query, one after the other.
\<close>

definition apply_filters ::
  "('a MemoryResource, 'a) runtime \<Rightarrow> 'a MemoryStore \<Rightarrow> Query \<Rightarrow> 'a MemoryResource list" where
  "apply_filters rt s query =
     (let f0 = resources s;
          f1 = (if truthy_opt (q_creator query)
                then filter (\<lambda>r. Some (creator r) = q_creator query) f0 else f0);
          f2 = (if truthy_opt (q_category query)
                then filter (\<lambda>r. Some (category r) = q_category query) f1 else f1);
          f3 = (if truthy_opt (q_contentType query)
                then filter (\<lambda>r. Some (contentType r) = q_contentType query) f2 else f2);
          f4 = (if q_isPublic query \<noteq> None
                then filter (\<lambda>r. Some (isPublic r) = q_isPublic query) f3 else f3);
          f5 = (case q_or query of
                  Some conditions \<Rightarrow> filter (\<lambda>resource. list_ex (or_condition resource) conditions) f4
                | None \<Rightarrow> f4)
      in case q_text query of
           Some t \<Rightarrow>
             (if truthy_opt (search t)
              then (let searchTerm = toLowerCase rt (the (search t))
                    in filter (text_match (toLowerCase rt) searchTerm) f5)
              else f5)
         | None \<Rightarrow> f5)"

text \<open>The second stage sorts by the first key of \<open>options.sort\<close>, when there is one.\<close>

definition apply_sort ::
  "('a MemoryResource, 'a) runtime \<Rightarrow> Options \<Rightarrow> 'a MemoryResource list \<Rightarrow> 'a MemoryResource list" where
  "apply_sort rt options filteredResources =
     (case sort' options of
        Some entries \<Rightarrow>
          (let sortKey = (case entries of [] \<Rightarrow> js ''undefined'' | (k, v) # _ \<Rightarrow> k);
               sortOrder = (case entries of [] \<Rightarrow> None | (k, v) # _ \<Rightarrow> Some v)
           in array_sort rt (compareFn (lt_any rt) sortKey sortOrder) filteredResources)
      | None \<Rightarrow> filteredResources)"

text \<open>The third stage cuts the page out, when \<open>skip\<close> or \<open>limit\<close> is truthy.\<close>

definition apply_pagination :: "Options \<Rightarrow> 'b list \<Rightarrow> 'b list" where
  "apply_pagination options filteredResources =
     (if truthy_num (skip options) \<or> truthy_num (limit options)
      then (let skip' = (if truthy_num (skip options) then the (skip options) else 0);
                limit' = (if truthy_num (limit options) then the (limit options)
                          else length filteredResources)
            in array_slice filteredResources skip' (skip' + limit'))
      else filteredResources)"

definition findResources ::
  "('a MemoryResource, 'a) runtime \<Rightarrow> 'a MemoryStore \<Rightarrow> Query \<Rightarrow> Options \<Rightarrow> 'a MemoryResource list" where
  "findResources rt s query options =
     apply_pagination options (apply_sort rt options (apply_filters rt s query))"

definition findResourceById :: "'a MemoryStore \<Rightarrow> jsstring \<Rightarrow> 'a MemoryResource option" where
  "findResourceById s i = find (\<lambda>r. r_id r = i) (resources s)"

definition deleteResource :: "'a MemoryStore \<Rightarrow> jsstring \<Rightarrow> bool \<times> 'a MemoryStore" where
  "deleteResource s i =
     (case find_index (\<lambda>r. r_id r = i) (resources s) of
        None \<Rightarrow> (False, s)
      | Some index \<Rightarrow>
          (True, s\<lparr>resources := take index (resources s) @ drop (index + 1) (resources s)\<rparr>))"

definition countResources :: "('a MemoryResource, 'a) runtime \<Rightarrow> 'a MemoryStore \<Rightarrow> Query \<Rightarrow> nat" where
  "countResources rt s query = length (findResources rt s query no_options)"

subsection \<open>The listing handler (resourceController.ts, getResources)\<close>

text \<open>
  The query string of the request after the route's validation: \<open>page\<close> and
  \<open>limit\<close> are what \<open>Number\<close> makes of them (the route admits \<open>page \<ge> 1\<close> and
  \<open>1 \<le> limit \<le> 100\<close>), every parameter is optional.
\<close>

record ListParams =
  p_page :: "nat option"
  p_limit :: "nat option"
  p_category :: "jsstring option"
  p_contentType :: "jsstring option"
  p_search :: "jsstring option"
  p_sortBy :: "jsstring option"
  p_sortOrder :: "jsstring option"

definition no_params :: ListParams where
  "no_params = \<lparr>p_page = None, p_limit = None, p_category = None, p_contentType = None,
                p_search = None, p_sortBy = None, p_sortOrder = None\<rparr>"

text \<open>The query that \<open>getResources\<close> builds for the requesting account.\<close>

definition getResources_query :: "jsstring \<Rightarrow> jsstring \<Rightarrow> ListParams \<Rightarrow> Query" where
  "getResources_query userId userRole ps =
     \<lparr>q_creator = None,
      q_category = (if truthy_opt (p_category ps) then p_category ps else None),
      q_contentType = (if truthy_opt (p_contentType ps) then p_contentType ps else None),
      q_isPublic = None,
      q_or = (if userRole \<noteq> js ''admin''
              then Some [\<lparr>c_creator = Some userId, c_isPublic = None\<rparr>,
                         \<lparr>c_creator = None, c_isPublic = Some True\<rparr>]
              else None),
      q_text = (if truthy_opt (p_search ps) then Some \<lparr>search = p_search ps\<rparr> else None)\<rparr>"

text \<open>The options that \<open>getResources\<close> passes to the volatile backend.\<close>

definition getResources_options :: "ListParams \<Rightarrow> Options" where
  "getResources_options ps =
     (let page = (case p_page ps of None \<Rightarrow> 1 | Some n \<Rightarrow> n);
          limit' = (case p_limit ps of None \<Rightarrow> 20 | Some n \<Rightarrow> n);
          sortBy = (case p_sortBy ps of None \<Rightarrow> js ''createdAt'' | Some k \<Rightarrow> k);
          sortOrder = (case p_sortOrder ps of None \<Rightarrow> js ''desc'' | Some d \<Rightarrow> d);
          skip' = (page - 1) * limit'
      in \<lparr>sort' = Some [(sortBy, if sortOrder = js ''desc'' then - 1 else 1)],
          skip = Some skip', limit = Some limit'\<rparr>)"

text \<open>
  The branch of \<open>getResources\<close> taken when the persistent backend throws: the page of
  resources and the total that the response reports.
\<close>

definition getResources_memory ::
  "('a MemoryResource, 'a) runtime \<Rightarrow> 'a MemoryStore \<Rightarrow> jsstring \<Rightarrow> jsstring \<Rightarrow> ListParams
     \<Rightarrow> 'a MemoryResource list \<times> nat" where
  "getResources_memory rt s userId userRole ps =
     (let query = getResources_query userId userRole ps;
          memoryOptions = getResources_options ps
      in (findResources rt s query memoryOptions, countResources rt s query))"

subsection \<open>The engine's sort on short arrays\<close>

text \<open>
  Node.js runs on V8, whose \<open>Array.prototype.sort\<close> treats an array of fewer than 64
  elements in two steps: it takes the longest initial run (reversing it when the
  comparator says it is strictly descending) and then inserts each further element by a
  binary search driven by the comparator. \<open>v8_sort\<close> is that procedure; it stands for the
  engine only on arrays of fewer than 64 elements.
\<close>

fun extend_run :: "('r \<Rightarrow> 'r \<Rightarrow> int) \<Rightarrow> bool \<Rightarrow> 'r \<Rightarrow> 'r list \<Rightarrow> nat" where
  "extend_run cmp desc prev [] = 0"
| "extend_run cmp desc prev (cur # rest) =
     (let order = cmp cur prev
      in if (if desc then order \<ge> 0 else order < 0) then 0
         else Suc (extend_run cmp desc cur rest))"

fun count_and_make_run :: "('r \<Rightarrow> 'r \<Rightarrow> int) \<Rightarrow> 'r list \<Rightarrow> 'r list \<times> 'r list" where
  "count_and_make_run cmp (x0 # x1 # rest) =
     (let desc = cmp x1 x0 < 0;
          n = 2 + extend_run cmp desc x1 rest;
          run = take n (x0 # x1 # rest)
      in (if desc then rev run else run, drop n (x0 # x1 # rest)))"
| "count_and_make_run cmp xs = (xs, [])"

function binary_search :: "('r \<Rightarrow> 'r \<Rightarrow> int) \<Rightarrow> 'r \<Rightarrow> 'r list \<Rightarrow> nat \<Rightarrow> nat \<Rightarrow> nat" where
  "binary_search cmp pivot xs left right =
     (if left < right
      then (let mid = left + (right - left) div 2;
                order = cmp pivot (xs ! mid)
            in if order < 0 then binary_search cmp pivot xs left mid
               else binary_search cmp pivot xs (mid + 1) right)
      else left)"
  by pat_completeness auto
termination
  by (relation "measure (\<lambda>(cmp, pivot, xs, left, right). right - left)") auto

declare binary_search.simps [simp del]

definition binary_insert :: "('r \<Rightarrow> 'r \<Rightarrow> int) \<Rightarrow> 'r list \<Rightarrow> 'r \<Rightarrow> 'r list" where
  "binary_insert cmp placed pivot =
     (let left = binary_search cmp pivot placed 0 (length placed)
      in take left placed @ [pivot] @ drop left placed)"

definition v8_sort :: "('r \<Rightarrow> 'r \<Rightarrow> int) \<Rightarrow> 'r list \<Rightarrow> 'r list" where
  "v8_sort cmp xs =
     (let (run, rest) = count_and_make_run cmp xs
      in foldl (binary_insert cmp) run rest)"

subsection \<open>What a query selects\<close>

text \<open>
  The records that match a query, stated on one record: every filter that the query
  carries holds of it.
\<close>

definition query_matches :: "(jsstring \<Rightarrow> jsstring) \<Rightarrow> Query \<Rightarrow> 'a MemoryResource \<Rightarrow> bool" where
  "query_matches lower query r =
     ((if truthy_opt (q_creator query) then Some (creator r) = q_creator query else True) \<and>
      (if truthy_opt (q_category query) then Some (category r) = q_category query else True) \<and>
      (if truthy_opt (q_contentType query) then Some (contentType r) = q_contentType query else True) \<and>
      (if q_isPublic query \<noteq> None then Some (isPublic r) = q_isPublic query else True) \<and>
      (case q_or query of Some conditions \<Rightarrow> list_ex (or_condition r) conditions | None \<Rightarrow> True) \<and>
      (case q_text query of
         Some t \<Rightarrow> (if truthy_opt (search t) then text_match lower (lower (the (search t))) r else True)
       | None \<Rightarrow> True))"

subsection \<open>Example data\<close>

text \<open>
  A runtime for the examples: the engine's sort on short arrays, a lower-casing that
  agrees with \<open>toLowerCase\<close> on ASCII strings, and no \<open>any\<close> value below another.
\<close>

definition example_runtime :: "(unit MemoryResource, unit) runtime" where
  "example_runtime =
     \<lparr>array_sort = v8_sort,
      toLowerCase = map (\<lambda>c. if 65 \<le> c \<and> c \<le> 90 then c + 32 else c),
      lt_any = (\<lambda>a b. False)\<rparr>"

text \<open>Two resources with the same title, created in this order by \<open>user_1\<close>.\<close>

definition quiz_data :: "unit MemoryResource" where
  "quiz_data =
     \<lparr>r_id = [], title = js ''Quiz'', description = js ''d'', content = (),
      contentType = js ''text'', category = js ''quiz'', tags = [], creator = js ''user_1'',
      isPublic = True, metadata = (), createdAt = 0, updatedAt = 0, views_prop = None\<rparr>"

definition one_resource_store :: "unit MemoryStore" where
  "one_resource_store = snd (createResource 1000 1000 new_MemoryStore quiz_data)"

definition two_resource_store :: "unit MemoryStore" where
  "two_resource_store = snd (createResource 2000 2000 one_resource_store quiz_data)"

definition empty_query :: Query where
  "empty_query = \<lparr>q_creator = None, q_category = None, q_contentType = None,
                   q_isPublic = None, q_or = None, q_text = None\<rparr>"

text \<open>The first account that \<open>initializeDemoUsers\<close> creates.\<close>

definition teacher :: UserData where
  "teacher = \<lparr>d_username = js ''teacher'', d_email = js ''teacher@example.com'',
              d_password = js ''Teacher123'', d_role = js ''teacher''\<rparr>"

text \<open>The user that \<open>createUser\<close> builds from that data under a given identifier.\<close>

definition race_user :: "jsstring \<Rightarrow> MemoryUser" where
  "race_user i =
     \<lparr>u_id = i, username = js ''teacher'', email = js ''teacher@example.com'',
      password = js ''Teacher123'', role = js ''teacher'',
      profile = \<lparr>displayName = js ''teacher'', bio = [], institution = [], subjects = [],
                  preferences = \<lparr>language = js ''zh-CN'', theme = js ''light'',
                                   aiModels = [], contentTypes = []\<rparr>\<rparr>,
      u_createdAt = 0, u_updatedAt = 0, lastLoginAt = None\<rparr>"

section \<open>The backend selector (memoryStore.ts, shouldUseMemoryStore)\<close>



record Connection =
  readyState :: int

text \<open>
  The exports of the mongoose library: the property \<open>connection\<close> is the default
  connection, an object that the library creates when it is loaded (\<open>None\<close> stands for
  a property that is undefined).
\<close>

record Mongoose =
  connection :: "Connection option"

text \<open>
  What a call of \<open>shouldUseMemoryStore\<close> can read or write in the process: the modules
  that \<open>require\<close> resolves, by name, and the store that memoryStore.ts keeps at module
  level.
\<close>

record 'a Process =
  modules :: "jsstring \<Rightarrow> Mongoose option"
  memoryStore :: "'a MemoryStore"

text \<open>\<open>require\<close> throws when the module cannot be resolved.\<close>

definition require_module :: "'a Process \<Rightarrow> jsstring \<Rightarrow> error + Mongoose" where
  "require_module p name =
     (case modules p name of
        None \<Rightarrow> Inl (Error (js ''Cannot find module '' @ name))
      | Some m \<Rightarrow> Inr m)"

text \<open>
  \<open>shouldUseMemoryStore\<close>: the \<open>require\<close>, the read of \<open>readyState\<close> from
  \<open>mongoose.connection\<close> (a \<open>TypeError\<close> when that is undefined) and the comparison.
  The function has no \<open>try\<close>; it returns the process as it found it.
\<close>

definition shouldUseMemoryStore :: "'a Process \<Rightarrow> (error + bool) \<times> 'a Process" where
  "shouldUseMemoryStore p =
     (case require_module p (js ''mongoose'') of
        Inl e \<Rightarrow> (Inl e, p)
      | Inr mongoose \<Rightarrow>
          (case connection mongoose of
             None \<Rightarrow> (Inl (TypeError (js ''Cannot read properties of undefined'')), p)
           | Some conn \<Rightarrow> (Inr (readyState conn \<noteq> 1), p)))"


section \<open>The persistent backend as the handlers use it\<close>

text \<open>
  A document of the \<open>Resource\<close> schema (Resource.ts); \<open>doc_id\<close> is \<open>_id\<close>, \<open>views\<close>
  is a number with default 0, \<open>likes\<close> a list of account identifiers.
\<close>

record 'a IResource =
  doc_id :: jsstring
  doc_title :: jsstring
  doc_description :: jsstring
  doc_contentType :: jsstring
  doc_category :: jsstring
  doc_content :: 'a
  doc_metadata :: 'a
  doc_tags :: "jsstring list"
  doc_isPublic :: bool
  doc_creator :: jsstring
  collaborators :: "jsstring list"
  likes :: "jsstring list"
  views :: int
  generationId :: "jsstring option"
  doc_createdAt :: int
  doc_updatedAt :: int

text \<open>
  The handlers call \<open>ResourceModel.findById\<close> and \<open>document.save\<close> of the mongoose
  library. Here the collection is a map from \<open>_id\<close> to document. While the backend is
  not \<open>available\<close> every call throws. Otherwise \<open>findById\<close> returns the stored
  document; for an identifier without document it returns null when mongoose can cast the
  string to an ObjectId (\<open>castable\<close>) and throws a \<open>CastError\<close> when it cannot.
  \<open>save\<close> stores the document under its \<open>_id\<close>.
\<close>

record 'a Persistent =
  available :: bool
  castable :: "jsstring \<Rightarrow> bool"
  collection :: "jsstring \<Rightarrow> 'a IResource option"

definition msg_driver :: jsstring where
  "msg_driver = js ''MongooseError''"

definition msg_cast :: jsstring where
  "msg_cast = js ''CastError''"

definition findById :: "'a Persistent \<Rightarrow> jsstring \<Rightarrow> error + 'a IResource option" where
  "findById db i =
     (if \<not> available db then Inl (Error msg_driver)
      else case collection db i of
             Some d \<Rightarrow> Inr (Some d)
           | None \<Rightarrow> if castable db i then Inr None else Inl (Error msg_cast))"

text \<open>
  The strings that the route's \<open>mongoIdPattern\<close> (routes/resources.ts) takes for
  identifiers of the persistent backend: 24 hexadecimal digits.
\<close>

definition hex_digit :: "16 word \<Rightarrow> bool" where
  "hex_digit c = ((48 \<le> c \<and> c \<le> 57) \<or> (97 \<le> c \<and> c \<le> 102) \<or> (65 \<le> c \<and> c \<le> 70))"

definition mongoIdPattern :: "jsstring \<Rightarrow> bool" where
  "mongoIdPattern v = (length v = 24 \<and> list_all hex_digit v)"

definition save :: "'a Persistent \<Rightarrow> 'a IResource \<Rightarrow> error + 'a Persistent" where
  "save db d =
     (if available db then Inr (db\<lparr>collection := (collection db)(doc_id d \<mapsto> d)\<rparr>)
      else Inl (Error msg_driver))"

section \<open>The resource handlers (resourceController.ts)\<close>

text \<open>The JSON envelope of a response; \<open>res.json\<close> without \<open>res.status\<close> answers 200.\<close>

record 'd Response =
  status :: nat
  success :: bool
  message :: "jsstring option"
  data :: "'d option"

definition msg_not_found :: jsstring where
  "msg_not_found = [0x8d44, 0x6e90, 0x4e0d, 0x5b58, 0x5728]"

definition msg_forbidden :: jsstring where
  "msg_forbidden = [0x6ca1, 0x6709, 0x6743, 0x9650, 0x8bbf, 0x95ee, 0x6b64, 0x8d44, 0x6e90]"

definition msg_detail_failed :: jsstring where
  "msg_detail_failed = [0x83b7, 0x53d6, 0x8d44, 0x6e90, 0x8be6, 0x60c5, 0x5931, 0x8d25]"

definition msg_like_failed :: jsstring where
  "msg_like_failed = [0x64cd, 0x4f5c, 0x5931, 0x8d25]"

definition msg_unliked :: jsstring where
  "msg_unliked = [0x53d6, 0x6d88, 0x70b9, 0x8d5e, 0x6210, 0x529f]"

definition msg_liked :: jsstring where
  "msg_liked = [0x70b9, 0x8d5e, 0x6210, 0x529f]"

text \<open>
  In \<open>getResourceById\<close> the variable \<open>resource\<close> holds either a mongoose document or
  the plain object that the volatile backend stores.
\<close>

datatype 'a ResourceDoc = Document "'a IResource" | Plain "'a MemoryResource"

fun res_creator :: "'a ResourceDoc \<Rightarrow> jsstring" where
  "res_creator (Document d) = doc_creator d"
| "res_creator (Plain r) = creator r"

fun res_isPublic :: "'a ResourceDoc \<Rightarrow> bool" where
  "res_isPublic (Document d) = doc_isPublic d"
| "res_isPublic (Plain r) = isPublic r"

text \<open>
  \<open>resource.views += 1\<close>: a document has the number \<open>views\<close>; on a plain object the
  property is read (undefined when absent), incremented and written.
\<close>

fun add_view :: "'a ResourceDoc \<Rightarrow> 'a ResourceDoc" where
  "add_view (Document d) = Document (d\<lparr>views := views d + 1\<rparr>)"
| "add_view (Plain r) = Plain (r\<lparr>views_prop := Some (plus_one (views_prop r))\<rparr>)"

text \<open>
  \<open>resource.save()\<close>: a document is saved by the persistent backend; a plain object has
  no \<open>save\<close>, and calling it raises a \<open>TypeError\<close>.
\<close>

fun save_resource :: "'a Persistent \<Rightarrow> 'a ResourceDoc \<Rightarrow> error + 'a Persistent" where
  "save_resource db (Document d) = save db d"
| "save_resource db (Plain r) = Inl (TypeError (js ''resource.save is not a function''))"

text \<open>
  The object that \<open>findResourceById\<close> returns is the stored one, so a write to it is a
  write to the store, at the position where it was found.
\<close>

fun write_through :: "'a MemoryStore \<Rightarrow> jsstring \<Rightarrow> 'a ResourceDoc \<Rightarrow> 'a MemoryStore" where
  "write_through ms i (Document d) = ms"
| "write_through ms i (Plain r) =
     (case find_index (\<lambda>x. r_id x = i) (resources ms) of
        Some index \<Rightarrow> ms\<lparr>resources := (resources ms)[index := r]\<rparr>
      | None \<Rightarrow> ms)"

text \<open>
  \<open>getResourceById\<close>. An exception of \<open>findById\<close> is caught by the inner \<open>catch\<close>,
  which turns to the volatile backend; any later exception is caught by the outer one,
  which answers 500.
\<close>

definition getResourceById ::
  "'a Persistent \<Rightarrow> 'a MemoryStore \<Rightarrow> jsstring \<Rightarrow> jsstring \<Rightarrow> jsstring
     \<Rightarrow> 'a ResourceDoc Response \<times> 'a Persistent \<times> 'a MemoryStore" where
  "getResourceById db ms i userId userRole =
     (let resource = (case findById db i of
                        Inr r \<Rightarrow> map_option Document r
                      | Inl mongoError \<Rightarrow> map_option Plain (findResourceById ms i))
      in case resource of
           None \<Rightarrow>
             (\<lparr>status = 404, success = False, message = Some msg_not_found, data = None\<rparr>, db, ms)
         | Some res \<Rightarrow>
             (let isOwner = (res_creator res = userId);
                  isPublic' = res_isPublic res
              in if \<not> isOwner \<and> \<not> isPublic' \<and> userRole \<noteq> js ''admin''
                 then (\<lparr>status = 403, success = False, message = Some msg_forbidden,
                        data = None\<rparr>, db, ms)
                 else if \<not> isOwner
                 then (let res' = add_view res;
                           ms' = write_through ms i res'
                       in case save_resource db res' of
                            Inr db' \<Rightarrow>
                              (\<lparr>status = 200, success = True, message = None,
                                data = Some res'\<rparr>, db', ms')
                          | Inl error \<Rightarrow>
                              (\<lparr>status = 500, success = False,
                                message = Some msg_detail_failed, data = None\<rparr>, db, ms'))
                 else (\<lparr>status = 200, success = True, message = None, data = Some res\<rparr>,
                       db, ms)))"

text \<open>The update of \<open>resource.likes\<close> in \<open>likeResource\<close>: \<open>includes\<close>, then \<open>filter\<close> or \<open>push\<close>.\<close>

definition toggle_like :: "jsstring \<Rightarrow> jsstring list \<Rightarrow> jsstring list" where
  "toggle_like userId ls =
     (let hasLiked = userId \<in> set ls
      in if hasLiked then filter (\<lambda>like. like \<noteq> userId) ls else ls @ [userId])"

record LikeData =
  liked :: bool
  likesCount :: nat

definition likeResource ::
  "'a Persistent \<Rightarrow> jsstring \<Rightarrow> jsstring \<Rightarrow> LikeData Response \<times> 'a Persistent" where
  "likeResource db i userId =
     (case findById db i of
        Inl e \<Rightarrow>
          (\<lparr>status = 500, success = False, message = Some msg_like_failed, data = None\<rparr>, db)
      | Inr None \<Rightarrow>
          (\<lparr>status = 404, success = False, message = Some msg_not_found, data = None\<rparr>, db)
      | Inr (Some resource) \<Rightarrow>
          (let hasLiked = userId \<in> set (likes resource);
               resource' = resource\<lparr>likes := toggle_like userId (likes resource)\<rparr>
           in case save db resource' of
                Inl e \<Rightarrow>
                  (\<lparr>status = 500, success = False, message = Some msg_like_failed,
                    data = None\<rparr>, db)
              | Inr db' \<Rightarrow>
                  (\<lparr>status = 200, success = True,
                    message = Some (if hasLiked then msg_unliked else msg_liked),
                    data = Some \<lparr>liked = \<not> hasLiked, likesCount = length (likes resource')\<rparr>\<rparr>,
                   db')))"

text \<open>The state of the persistent backend after \<open>N\<close> successive calls by one account.\<close>

fun like_times :: "nat \<Rightarrow> 'a Persistent \<Rightarrow> jsstring \<Rightarrow> jsstring \<Rightarrow> 'a Persistent" where
  "like_times 0 db i userId = db"
| "like_times (Suc N) db i userId = snd (likeResource (like_times N db i userId) i userId)"

section \<open>The register handler on the volatile backend (authController.ts, register)\<close>

text \<open>
  The branch of \<open>register\<close> under \<open>shouldUseMemoryStore()\<close> calls \<open>createUser\<close> and
  answers when the call has settled: 201 with the user and a token when it returned, 400
  with the message of the error when it threw. \<open>generateToken\<close> signs the identifier.
\<close>

record RegisteredUser =
  reg_id :: jsstring
  reg_username :: jsstring
  reg_email :: jsstring
  reg_role :: jsstring
  reg_profile :: Profile
  reg_createdAt :: int
  reg_updatedAt :: int

record RegisterData =
  reg_user :: RegisteredUser
  token :: jsstring

definition msg_registered :: jsstring where
  "msg_registered = [0x6ce8, 0x518c, 0x6210, 0x529f]"

fun error_message :: "error \<Rightarrow> jsstring" where
  "error_message (Error m) = m"
| "error_message (TypeError m) = m"

fun register_response :: "(jsstring \<Rightarrow> jsstring) \<Rightarrow> call \<Rightarrow> RegisterData Response option" where
  "register_response generateToken (Returned user) =
     Some \<lparr>status = 201, success = True, message = Some msg_registered,
           data = Some \<lparr>reg_user = \<lparr>reg_id = u_id user, reg_username = username user,
                                     reg_email = email user, reg_role = role user,
                                     reg_profile = profile user,
                                     reg_createdAt = u_createdAt user,
                                     reg_updatedAt = u_updatedAt user\<rparr>,
                         token = generateToken (u_id user)\<rparr>\<rparr>"
| "register_response generateToken (Thrown e) =
     Some \<lparr>status = 400, success = False, message = Some (error_message e), data = None\<rparr>"
| "register_response generateToken (Scanning userData) = None"
| "register_response generateToken (Hashing userData) = None"

section \<open>The generation dispatcher (aiService.ts)\<close>

subsection \<open>Requests and results\<close>

text \<open>
  Interface \<open>GenerationRequest\<close>. The numeric tuning parameters (\<open>maxTokens\<close>,
  \<open>temperature\<close>, \<open>topP\<close>, the two penalties) and \<open>parameters\<close> are only forwarded to
  the provider's API, which is taken as a function of the whole request below.
\<close>

record GenerationRequest =
  req_type :: jsstring
  prompt :: jsstring
  model :: "jsstring option"
  provider :: "jsstring option"
  imageSize :: "jsstring option"
  imageQuality :: "jsstring option"
  imageStyle :: "jsstring option"
  educationLevel :: "jsstring option"
  subject :: "jsstring option"
  language' :: "jsstring option"
  tone :: "jsstring option"
  additionalInstructions :: "jsstring option"

record Usage =
  promptTokens :: nat
  completionTokens :: nat
  totalTokens :: nat

text \<open>The metadata object: the two declared properties and the extras the adapters add.\<close>

record Metadata =
  finishReason :: jsstring
  responseTime :: int
  isMock :: "bool option"
  meta_imageSize :: "jsstring option"
  meta_imageQuality :: "jsstring option"
  meta_imageStyle :: "jsstring option"

record GenerationResult =
  g_id :: jsstring
  g_content :: jsstring
  g_provider :: jsstring
  g_model :: jsstring
  usage :: Usage
  g_metadata :: Metadata

text \<open>\<open>a || b\<close> on an optional string and on an optional number.\<close>

definition or_else :: "jsstring option \<Rightarrow> jsstring \<Rightarrow> jsstring" where
  "or_else v d = (if truthy_opt v then the v else d)"

definition or_zero :: "nat option \<Rightarrow> nat" where
  "or_zero v = (case v of None \<Rightarrow> 0 | Some n \<Rightarrow> n)"

subsection \<open>The provider APIs\<close>

text \<open>
  What the adapters take from outside: the answers of the OpenAI client and of the
  Anthropic endpoint (or the exception thrown), and the two readings of \<open>Date.now()\<close>
  made while a result is built.
\<close>

record ChatCompletion =
  choice_content :: "jsstring option"
  choice_finish_reason :: "jsstring option"
  prompt_tokens :: "nat option"
  completion_tokens :: "nat option"
  total_tokens :: "nat option"

record ClaudeHttp =
  ok :: bool
  http_status :: nat
  content_text :: "jsstring option"
  input_tokens :: "nat option"
  output_tokens :: "nat option"
  stop_reason :: "jsstring option"

record Apis =
  openai_chat :: "GenerationRequest \<Rightarrow> error + ChatCompletion"
  openai_images :: "GenerationRequest \<Rightarrow> error + jsstring option"
  claude_messages :: "GenerationRequest \<Rightarrow> error + ClaudeHttp"
  now1 :: int
  now2 :: int

text \<open>\<open>Number.prototype.toString\<close> of an integer time stamp.\<close>

definition int_decimal :: "int \<Rightarrow> jsstring" where
  "int_decimal n = (if n < 0 then js ''-'' @ decimal (nat (- n)) else decimal (nat n))"

subsection \<open>The adapters\<close>

datatype AIProvider = OpenAIProvider | ClaudeProvider | MockProvider

definition msg_openai_failed :: jsstring where
  "msg_openai_failed =
     [0x4f, 0x70, 0x65, 0x6e, 0x41, 0x49, 0x5185, 0x5bb9, 0x751f, 0x6210, 0x5931, 0x8d25]"

definition msg_openai_image_failed :: jsstring where
  "msg_openai_image_failed =
     [0x4f, 0x70, 0x65, 0x6e, 0x41, 0x49, 0x56fe, 0x50cf, 0x751f, 0x6210, 0x5931, 0x8d25]"

definition msg_claude_failed :: jsstring where
  "msg_claude_failed =
     [0x43, 0x6c, 0x61, 0x75, 0x64, 0x65, 0x5185, 0x5bb9, 0x751f, 0x6210, 0x5931, 0x8d25]"

definition msg_unsupported :: jsstring where
  "msg_unsupported =
     [0x4e0d, 0x652f, 0x6301, 0x7684, 0x41, 0x49, 0x63d0, 0x4f9b, 0x5546, 0x3a, 0x20]"

definition OpenAI_generateText :: "Apis \<Rightarrow> GenerationRequest \<Rightarrow> error + GenerationResult" where
  "OpenAI_generateText apis request =
     (case openai_chat apis request of
        Inl e \<Rightarrow> Inl (Error msg_openai_failed)
      | Inr response \<Rightarrow>
          Inr \<lparr>g_id = js ''openai_'' @ int_decimal (now1 apis),
               g_content = or_else (choice_content response) [],
               g_provider = js ''openai'',
               g_model = or_else (model request) (js ''gpt-3.5-turbo''),
               usage = \<lparr>promptTokens = or_zero (prompt_tokens response),
                         completionTokens = or_zero (completion_tokens response),
                         totalTokens = or_zero (total_tokens response)\<rparr>,
               g_metadata = \<lparr>finishReason = or_else (choice_finish_reason response) (js ''stop''),
                              responseTime = now2 apis, isMock = None, meta_imageSize = None,
                              meta_imageQuality = None, meta_imageStyle = None\<rparr>\<rparr>)"

definition validSizes :: "jsstring list" where
  "validSizes = [js ''256x256'', js ''512x512'', js ''1024x1024'', js ''1536x1024'',
                 js ''1024x1536'', js ''1792x1024'', js ''1024x1792'']"

definition OpenAI_generateImage :: "Apis \<Rightarrow> GenerationRequest \<Rightarrow> error + GenerationResult" where
  "OpenAI_generateImage apis request =
     (let size' = (case imageSize request of
                     Some sz \<Rightarrow> if sz \<in> set validSizes then sz else js ''1024x1024''
                   | None \<Rightarrow> js ''1024x1024'')
      in case openai_images apis request of
           Inl e \<Rightarrow> Inl (Error msg_openai_image_failed)
         | Inr url \<Rightarrow>
             Inr \<lparr>g_id = js ''openai_img_'' @ int_decimal (now1 apis),
                  g_content = or_else url [],
                  g_provider = js ''openai'',
                  g_model = or_else (model request) (js ''dall-e-3''),
                  usage = \<lparr>promptTokens = 0, completionTokens = 0, totalTokens = 0\<rparr>,
                  g_metadata = \<lparr>finishReason = js ''stop'', responseTime = now2 apis,
                                 isMock = None, meta_imageSize = Some size',
                                 meta_imageQuality = imageQuality request,
                                 meta_imageStyle = imageStyle request\<rparr>\<rparr>)"

text \<open>
  The Claude adapter: an answer that is not \<open>ok\<close> raises inside the \<open>try\<close>, and the
  \<open>catch\<close> replaces every exception by the one generic error.
\<close>

definition Claude_generateText :: "Apis \<Rightarrow> GenerationRequest \<Rightarrow> error + GenerationResult" where
  "Claude_generateText apis request =
     (case claude_messages apis request of
        Inl e \<Rightarrow> Inl (Error msg_claude_failed)
      | Inr response \<Rightarrow>
          if \<not> ok response then Inl (Error msg_claude_failed)
          else Inr \<lparr>g_id = js ''claude_'' @ int_decimal (now1 apis),
                    g_content = or_else (content_text response) [],
                    g_provider = js ''claude'',
                    g_model = or_else (model request) (js ''claude-3-sonnet-20240229''),
                    usage = \<lparr>promptTokens = or_zero (input_tokens response),
                              completionTokens = or_zero (output_tokens response),
                              totalTokens = or_zero (input_tokens response)
                                            + or_zero (output_tokens response)\<rparr>,
                    g_metadata = \<lparr>finishReason = or_else (stop_reason response) (js ''stop''),
                                   responseTime = now2 apis, isMock = None,
                                   meta_imageSize = None, meta_imageQuality = None,
                                   meta_imageStyle = None\<rparr>\<rparr>)"

text \<open>The fixed pieces of the text that the mock adapter returns.\<close>

definition mock_text_0 :: jsstring where
  "mock_text_0 =
     [0x8fd9, 0x662f, 0x4e00, 0x4e2a, 0x6a21, 0x62df, 0x7684, 0x41, 0x49, 0x751f,
      0x6210, 0x5185, 0x5bb9, 0xff0c, 0x57fa, 0x4e8e, 0x60a8, 0x7684, 0x63d0, 0x793a,
      0x8bcd, 0xff1a, 0x22]"

definition mock_text_1 :: jsstring where
  "mock_text_1 =
     [0x22, 0x3002, 0xa, 0xa, 0x8fd9, 0x662f, 0x4e3a, 0x4e86, 0x6f14, 0x793a, 0x76ee,
      0x7684, 0x800c, 0x751f, 0x6210, 0x7684, 0x6559, 0x5b66, 0x8d44, 0x6e90, 0x5185,
      0x5bb9, 0x3002, 0x5728, 0x5b9e, 0x9645, 0x73af, 0x5883, 0x4e2d, 0xff0c, 0x8fd9,
      0x91cc, 0x4f1a, 0x662f, 0x7531, 0x41, 0x49, 0x6a21, 0x578b, 0x751f, 0x6210,
      0x7684, 0x9ad8, 0x8d28, 0x91cf, 0x6559, 0x80b2, 0x5185, 0x5bb9, 0x3002, 0xa, 0xa,
      0x5185, 0x5bb9, 0x7279, 0x70b9, 0xff1a, 0xa, 0x2d, 0x20, 0x9002, 0x5408]"

definition mock_text_2 :: jsstring where
  "mock_text_2 =
     [0x6559, 0x80b2, 0x6c34, 0x5e73, 0xa, 0x2d, 0x20, 0x5b66, 0x79d1, 0xff1a]"

definition mock_text_3 :: jsstring where
  "mock_text_3 =
     [0xa, 0x2d, 0x20, 0x8bed, 0x8a00, 0xff1a]"

definition mock_text_4 :: jsstring where
  "mock_text_4 =
     [0xa, 0x2d, 0x20, 0x98ce, 0x683c, 0xff1a]"

definition mock_text_5 :: jsstring where
  "mock_text_5 =
     [0xa, 0xa, 0x8bf7, 0x6ce8, 0x610f, 0xff1a, 0x8fd9, 0x662f, 0x6a21, 0x62df, 0x5185,
      0x5bb9, 0xff0c, 0x5b9e, 0x9645, 0x4f7f, 0x7528, 0x65f6, 0x9700, 0x8981, 0x914d,
      0x7f6e, 0x771f, 0x5b9e, 0x7684, 0x41, 0x49, 0x20, 0x41, 0x50, 0x49, 0x5bc6,
      0x94a5, 0x3002]"

definition mock_general :: jsstring where
  "mock_general = [0x901a, 0x7528]"

definition mock_other_0 :: jsstring where
  "mock_other_0 = [0x6a21, 0x62df, 0x7684]"

definition mock_other_1 :: jsstring where
  "mock_other_1 = [0x5185, 0x5bb9, 0x751f, 0x6210, 0x5b8c, 0x6210]"

definition Mock_generateText :: "Apis \<Rightarrow> GenerationRequest \<Rightarrow> error + GenerationResult" where
  "Mock_generateText apis request =
     (let content' =
            (if req_type request = js ''text''
             then mock_text_0 @ prompt request @ mock_text_1
                  @ or_else (educationLevel request) mock_general @ mock_text_2
                  @ or_else (subject request) mock_general @ mock_text_3
                  @ or_else (language' request) (js ''zh-cn'') @ mock_text_4
                  @ or_else (tone request) (js ''professional'') @ mock_text_5
             else mock_other_0 @ req_type request @ mock_other_1)
      in Inr \<lparr>g_id = js ''mock_'' @ int_decimal (now1 apis),
              g_content = content',
              g_provider = js ''mock'',
              g_model = js ''mock-model'',
              usage = \<lparr>promptTokens = length (prompt request),
                        completionTokens = length content',
                        totalTokens = length (prompt request) + length content'\<rparr>,
              g_metadata = \<lparr>finishReason = js ''stop'', responseTime = now2 apis,
                             isMock = Some True, meta_imageSize = None,
                             meta_imageQuality = None, meta_imageStyle = None\<rparr>\<rparr>)"

definition mock_image :: jsstring where
  "mock_image = js ''data:image/svg+xml;base64,PHN2ZyB3aWR0aD0iNTEyIiBoZWlnaHQ9IjUxMiIgeG1sbnM9Imh0dHA6Ly93d3cudzMub3JnLzIwMDAvc3ZnIj4KICA8cmVjdCB3aWR0aD0iMTAwJSIgaGVpZ2h0PSIxMDAlIiBmaWxsPSIjZjBmMGYwIi8+CiAgPHRleHQgeD0iNTAlIiB5PSI1MCUiIGZvbnQtZmFtaWx5PSJBcmlhbCwgc2Fucy1zZXJpZiIgZm9udC1zaXplPSIyNCIgZmlsbD0iIzMzMyIgdGV4dC1hbmNob3I9Im1pZGRsZSIgZHk9Ii4zZW0iPk1vY2sgSW1hZ2U8L3RleHQ+Cjwvc3ZnPg==''"

definition Mock_generateImage :: "Apis \<Rightarrow> GenerationRequest \<Rightarrow> error + GenerationResult" where
  "Mock_generateImage apis request =
     Inr \<lparr>g_id = js ''mock_img_'' @ int_decimal (now1 apis),
          g_content = mock_image,
          g_provider = js ''mock'',
          g_model = js ''mock-image-model'',
          usage = \<lparr>promptTokens = length (prompt request), completionTokens = 0,
                    totalTokens = length (prompt request)\<rparr>,
          g_metadata = \<lparr>finishReason = js ''stop'', responseTime = now2 apis,
                         isMock = Some True,
                         meta_imageSize = Some (or_else (imageSize request) (js ''512x512'')),
                         meta_imageQuality = None, meta_imageStyle = None\<rparr>\<rparr>"

text \<open>
  Interface \<open>AIProvider\<close>: every adapter has \<open>generateText\<close>; \<open>generateImage\<close> is
  optional, and the Claude adapter does not define it.
\<close>

fun generateText :: "AIProvider \<Rightarrow> Apis \<Rightarrow> GenerationRequest \<Rightarrow> error + GenerationResult" where
  "generateText OpenAIProvider = OpenAI_generateText"
| "generateText ClaudeProvider = Claude_generateText"
| "generateText MockProvider = Mock_generateText"

fun generateImage ::
  "AIProvider \<Rightarrow> (Apis \<Rightarrow> GenerationRequest \<Rightarrow> error + GenerationResult) option" where
  "generateImage OpenAIProvider = Some OpenAI_generateImage"
| "generateImage ClaudeProvider = None"
| "generateImage MockProvider = Some Mock_generateImage"

subsection \<open>The service\<close>

record AIService =
  providers :: "(jsstring \<times> AIProvider) list"

text \<open>
  The constructor, given the two environment variables \<open>OPENAI_API_KEY\<close> and
  \<open>CLAUDE_API_KEY\<close>.
\<close>

definition new_AIService :: "jsstring option \<Rightarrow> jsstring option \<Rightarrow> AIService" where
  "new_AIService openai_key claude_key =
     (let p0 = [];
          p1 = (if truthy_opt openai_key then map_set p0 (js ''openai'') OpenAIProvider else p0);
          p2 = (if truthy_opt claude_key then map_set p1 (js ''claude'') ClaudeProvider else p1)
      in \<lparr>providers = map_set p2 (js ''mock'') MockProvider\<rparr>)"

definition map_has :: "('k \<times> 'v) list \<Rightarrow> 'k \<Rightarrow> bool" where
  "map_has m k = (map_of m k \<noteq> None)"

definition generateContent :: "Apis \<Rightarrow> AIService \<Rightarrow> GenerationRequest \<Rightarrow> error + GenerationResult" where
  "generateContent apis svc request =
     (let providerName = or_else (provider request) (js ''openai'');
          providerName = (if \<not> map_has (providers svc) providerName then js ''mock''
                          else providerName)
      in case map_get (providers svc) providerName of
           None \<Rightarrow> Inl (Error (msg_unsupported @ providerName))
         | Some provider' \<Rightarrow>
             (if req_type request = js ''image'' \<and> generateImage provider' \<noteq> None
              then the (generateImage provider') apis request
              else generateText provider' apis request))"

definition isProviderAvailable :: "AIService \<Rightarrow> jsstring \<Rightarrow> bool" where
  "isProviderAvailable svc p = map_has (providers svc) p"

definition getAvailableProviders :: "AIService \<Rightarrow> jsstring list" where
  "getAvailableProviders svc = map fst (providers svc)"

subsection \<open>Example data\<close>

text \<open>A stored document that \<open>user_1\<close> created and likes.\<close>

definition like_doc :: "unit IResource" where
  "like_doc =
     \<lparr>doc_id = js ''65a1b2c3d4e5f60718293a4b'', doc_title = js ''Quiz'', doc_description = js ''d'',
      doc_contentType = js ''text'', doc_category = js ''quiz'', doc_content = (),
      doc_metadata = (), doc_tags = [], doc_isPublic = True, doc_creator = js ''user_1'',
      collaborators = [], likes = [js ''user_1''], views = 0, generationId = None,
      doc_createdAt = 0, doc_updatedAt = 0\<rparr>"

text \<open>
  A request that names a provider without adapter, and APIs that fail; a request for an
  image from the Claude adapter, and APIs whose Anthropic endpoint answers.
\<close>

definition nonexistent_request :: GenerationRequest where
  "nonexistent_request =
     \<lparr>req_type = js ''text'', prompt = js ''hello'', model = None,
      provider = Some (js ''nonexistent''), imageSize = None, imageQuality = None,
      imageStyle = None, educationLevel = None, subject = None, language' = None,
      tone = None, additionalInstructions = None\<rparr>"

definition failing_apis :: Apis where
  "failing_apis =
     \<lparr>openai_chat = (\<lambda>r. Inl (Error [])), openai_images = (\<lambda>r. Inl (Error [])),
      claude_messages = (\<lambda>r. Inl (Error [])), now1 = 1700000000000, now2 = 1700000000000\<rparr>"

definition claude_image_request :: GenerationRequest where
  "claude_image_request =
     \<lparr>req_type = js ''image'', prompt = js ''a cat'', model = None,
      provider = Some (js ''claude''), imageSize = None, imageQuality = None,
      imageStyle = None, educationLevel = None, subject = None, language' = None,
      tone = None, additionalInstructions = None\<rparr>"

definition answering_apis :: Apis where
  "answering_apis =
     \<lparr>openai_chat = (\<lambda>r. Inl (Error [])), openai_images = (\<lambda>r. Inl (Error [])),
      claude_messages = (\<lambda>r. Inr \<lparr>ok = True, http_status = 200,
          content_text = Some (js ''A cat is a small animal.''), input_tokens = Some 3,
          output_tokens = Some 7, stop_reason = Some (js ''end_turn'')\<rparr>),
      now1 = 1700000000000, now2 = 1700000000000\<rparr>"

section \<open>Properties\<close>

subsection \<open>Strings\<close>

lemma of_char_lt: "(of_char c :: nat) < 65536"
proof -
  have "(of_char c :: nat) mod 256 = of_char c" by (rule of_char_mod_256)
  then have "(of_char c :: nat) < 256" by (metis mod_less_divisor zero_less_numeral)
  then show ?thesis by (rule less_trans) simp
qed

lemma unat_js_char: "unat (of_nat (of_char c) :: 16 word) = of_char c"
  by (rule of_nat_inverse [OF refl]) (simp add: of_char_lt)

lemma js_char_inj: "(of_nat (of_char x) :: 16 word) = of_nat (of_char y) \<Longrightarrow> x = y"
  by (metis unat_js_char of_char_eq_iff)

lemma js_eq_iff: "js a = js b \<longleftrightarrow> a = b"
proof (induction a arbitrary: b)
  case Nil
  then show ?case by (auto simp: js_def)
next
  case (Cons x xs)
  then show ?case by (cases b) (auto simp: js_def dest: js_char_inj)
qed

lemma unat_digit: "d < 10 \<Longrightarrow> unat (of_nat (48 + d) :: 16 word) = 48 + d"
  by (rule of_nat_inverse [OF refl]) simp

lemma undecimal_snoc: "undecimal (s @ [c]) = 10 * undecimal s + (unat c - 48)"
  by (simp add: undecimal_def)

lemma undecimal_decimal: "undecimal (decimal n) = n"
proof (induction n rule: decimal.induct)
  case (1 n)
  show ?case
  proof (cases "n < 10")
    case True
    have "undecimal [of_nat (48 + n) :: 16 word] = n"
      unfolding undecimal_def using unat_digit [OF True] by simp
    with True show ?thesis by (subst decimal.simps) simp
  next
    case False
    have "unat (of_nat (48 + n mod 10) :: 16 word) = 48 + n mod 10"
      by (rule unat_digit) simp
    with False 1 show ?thesis
      by (subst decimal.simps) (simp only: undecimal_snoc if_False, simp)
  qed
qed

lemma decimal_inj: "decimal m = decimal n \<longleftrightarrow> m = n"
  by (metis undecimal_decimal)

subsection \<open>Accounts of the volatile backend\<close>

lemma map_set_fresh: "k \<notin> set (map fst m) \<Longrightarrow> map_set m k v = m @ [(k, v)]"
  by (induction m) auto

lemma map_set_keys_present: "k \<in> set (map fst m) \<Longrightarrow> map fst (map_set m k v) = map fst m"
  by (induction m) force+

lemma map_get_map_set: "map_get (map_set m k v) k' = (if k' = k then Some v else map_get m k')"
  by (induction m) (auto simp: map_get_def)

lemma map_get_Some_key: "map_get m k = Some v \<Longrightarrow> k \<in> set (map fst m)"
  unfolding map_get_def by (metis map_of_eq_None_iff option.distinct(1) set_map)

lemma user_key_inj: "js ''user_'' @ decimal m = js ''user_'' @ decimal n \<longleftrightarrow> m = n"
  by (simp add: decimal_inj)

lemma store_inv_fresh:
  assumes "store_inv s"
  shows "js ''user_'' @ decimal (userIdCounter s) \<notin> set (map fst (users s))"
proof
  assume "js ''user_'' @ decimal (userIdCounter s) \<in> set (map fst (users s))"
  with assms have "js ''user_'' @ decimal (userIdCounter s)
      \<in> set (map (\<lambda>n. js ''user_'' @ decimal n) [1 ..< userIdCounter s])"
    unfolding store_inv_def by blast
  then obtain n where "n < userIdCounter s"
    and "js ''user_'' @ decimal (userIdCounter s) = js ''user_'' @ decimal n"
    by auto
  then show False by (simp add: decimal_inj)
qed

lemma store_inv_key_nonempty:
  assumes "store_inv s" and "k \<in> set (map fst (users s))"
  shows "k \<noteq> []"
proof -
  from assms have "k \<in> set (map (\<lambda>n. js ''user_'' @ decimal n) [1 ..< userIdCounter s])"
    unfolding store_inv_def by blast
  then show ?thesis by (auto simp: js_def)
qed

lemma store_inv_new: "store_inv new_MemoryStore"
  by (simp add: store_inv_def new_MemoryStore_def)

lemma store_inv_clear: "store_inv (clear s)"
  by (simp add: store_inv_def clear_def)

lemma createUser_dup:
  assumes "\<exists>user \<in> set (map_values (users s)). email user = d_email ud \<or> username user = d_username ud"
  shows "createUser hash t1 t2 s ud = (Inl (Error msg_user_exists), s)"
proof -
  from assms have "find (\<lambda>user. email user = d_email ud \<or> username user = d_username ud)
      (map_values (users s)) \<noteq> None"
    unfolding find_None_iff by blast
  then show ?thesis by (auto simp: createUser_def createUser_scan_def)
qed

lemma createUser_fresh:
  assumes inv: "store_inv s"
    and nodup: "\<not> (\<exists>user \<in> set (map_values (users s)). email user = d_email ud \<or> username user = d_username ud)"
  shows "\<exists>user. createUser hash t1 t2 s ud =
           (Inr user, s\<lparr>userIdCounter := userIdCounter s + 1, users := users s @ [(u_id user, user)]\<rparr>)
         \<and> u_id user = js ''user_'' @ decimal (userIdCounter s)
         \<and> u_id user \<notin> set (map fst (users s))
         \<and> username user = d_username ud \<and> email user = d_email ud
         \<and> password user = hash (d_password ud) \<and> role user = d_role ud"
proof -
  from nodup have nf: "find (\<lambda>user. email user = d_email ud \<or> username user = d_username ud)
      (map_values (users s)) = None"
    by (simp add: find_None_iff)
  show ?thesis
    using store_inv_fresh [OF inv]
    by (simp add: createUser_def createUser_scan_def createUser_insert_def nf
        generateUserId_def Let_def map_set_fresh)
qed

lemma store_inv_createUser:
  assumes "store_inv s"
  shows "store_inv (snd (createUser hash t1 t2 s ud))"
proof (cases "\<exists>user \<in> set (map_values (users s)). email user = d_email ud \<or> username user = d_username ud")
  case True
  then show ?thesis using assms by (simp add: createUser_dup)
next
  case False
  from createUser_fresh [OF assms False, of hash t1 t2] obtain user where
    c: "createUser hash t1 t2 s ud =
           (Inr user, s\<lparr>userIdCounter := userIdCounter s + 1, users := users s @ [(u_id user, user)]\<rparr>)"
    and k: "u_id user = js ''user_'' @ decimal (userIdCounter s)"
    and f: "u_id user \<notin> set (map fst (users s))" by blast
  have sub: "set (map (\<lambda>n. js ''user_'' @ decimal n) [1 ..< userIdCounter s])
      \<subseteq> set (map (\<lambda>n. js ''user_'' @ decimal n) [1 ..< userIdCounter s + 1])"
    by auto
  have new: "js ''user_'' @ decimal (userIdCounter s)
      \<in> set (map (\<lambda>n. js ''user_'' @ decimal n) [1 ..< userIdCounter s + 1])"
    using assms unfolding store_inv_def by auto
  have old: "\<forall>k \<in> set (map fst (users s)).
      k \<in> set (map (\<lambda>n. js ''user_'' @ decimal n) [1 ..< userIdCounter s + 1])"
    using assms sub unfolding store_inv_def by blast
  have d: "distinct (map fst (users s))" using assms unfolding store_inv_def by blast
  have "store_inv (s\<lparr>userIdCounter := userIdCounter s + 1,
      users := users s @ [(u_id user, user)]\<rparr>)"
    unfolding store_inv_def using d f old new k by simp
  then show ?thesis by (simp add: c)
qed

lemma store_inv_cong:
  "map fst (users s') = map fst (users s) \<Longrightarrow> userIdCounter s' = userIdCounter s
     \<Longrightarrow> store_inv s' = store_inv s"
  by (simp add: store_inv_def)

lemma store_inv_updateUser:
  assumes "store_inv s"
  shows "store_inv (snd (updateUser now s i merge))"
proof (cases "map_get (users s) i")
  case None
  then show ?thesis using assms by (simp add: updateUser_def)
next
  case (Some user)
  then have "i \<in> set (map fst (users s))" by (rule map_get_Some_key)
  then show ?thesis using assms Some
    by (simp add: updateUser_def Let_def map_set_keys_present cong: store_inv_cong)
qed

lemma store_inv_updateUserPassword:
  assumes "store_inv s"
  shows "store_inv (snd (updateUserPassword hash now s i pw))"
proof (cases "map_get (users s) i")
  case None
  then show ?thesis using assms by (simp add: updateUserPassword_def)
next
  case (Some user)
  then have "i \<in> set (map fst (users s))" by (rule map_get_Some_key)
  then show ?thesis using assms Some
    by (simp add: updateUserPassword_def Let_def map_set_keys_present cong: store_inv_cong)
qed


text \<open>
  Calls that do not overlap. In a store whose user map holds identifiers handed out by
  the counter, a call that no other request interleaves, with data whose username or
  email equals that of a stored user, returns the error and leaves the store as it was.
  Otherwise it appends exactly one entry under a key that was not in the map, and any
  later such call with the same username or the same email fails.
\<close>

lemma createUser_sequential:
  assumes "store_inv s"
  shows "((\<exists>user \<in> set (map_values (users s)).
              username user = d_username ud \<or> email user = d_email ud)
            \<longrightarrow> createUser hash t1 t2 s ud = (Inl (Error msg_user_exists), s))
       \<and> (\<not> (\<exists>user \<in> set (map_values (users s)).
              username user = d_username ud \<or> email user = d_email ud)
            \<longrightarrow> (\<exists>user. createUser hash t1 t2 s ud =
                    (Inr user, s\<lparr>userIdCounter := userIdCounter s + 1,
                                  users := users s @ [(u_id user, user)]\<rparr>)
                  \<and> u_id user \<notin> set (map fst (users s))
                  \<and> username user = d_username ud \<and> email user = d_email ud
                  \<and> (\<forall>ud'. d_username ud' = d_username ud \<or> d_email ud' = d_email ud
                        \<longrightarrow> createUser hash' t1' t2' (snd (createUser hash t1 t2 s ud)) ud'
                              = (Inl (Error msg_user_exists), snd (createUser hash t1 t2 s ud)))))"
proof (intro conjI impI)
  assume "\<exists>user \<in> set (map_values (users s)).
             username user = d_username ud \<or> email user = d_email ud"
  then have "\<exists>user \<in> set (map_values (users s)).
             email user = d_email ud \<or> username user = d_username ud" by blast
  then show "createUser hash t1 t2 s ud = (Inl (Error msg_user_exists), s)"
    by (rule createUser_dup)
next
  assume "\<not> (\<exists>user \<in> set (map_values (users s)).
             username user = d_username ud \<or> email user = d_email ud)"
  then have nd: "\<not> (\<exists>user \<in> set (map_values (users s)).
             email user = d_email ud \<or> username user = d_username ud)" by blast
  from createUser_fresh [OF assms nd, of hash t1 t2] obtain user where
    c: "createUser hash t1 t2 s ud =
           (Inr user, s\<lparr>userIdCounter := userIdCounter s + 1, users := users s @ [(u_id user, user)]\<rparr>)"
    and f: "u_id user \<notin> set (map fst (users s))"
    and n: "username user = d_username ud" and e: "email user = d_email ud" by blast
  have again: "createUser hash' t1' t2' (snd (createUser hash t1 t2 s ud)) ud'
        = (Inl (Error msg_user_exists), snd (createUser hash t1 t2 s ud))"
    if "d_username ud' = d_username ud \<or> d_email ud' = d_email ud" for ud'
  proof (rule createUser_dup)
    have "user \<in> set (map_values (users (snd (createUser hash t1 t2 s ud))))"
      by (simp add: c map_values_def)
    with that n e show "\<exists>user \<in> set (map_values (users (snd (createUser hash t1 t2 s ud)))).
        email user = d_email ud' \<or> username user = d_username ud'"
      by metis
  qed
  show "\<exists>user. createUser hash t1 t2 s ud =
                    (Inr user, s\<lparr>userIdCounter := userIdCounter s + 1,
                                  users := users s @ [(u_id user, user)]\<rparr>)
                  \<and> u_id user \<notin> set (map fst (users s))
                  \<and> username user = d_username ud \<and> email user = d_email ud
                  \<and> (\<forall>ud'. d_username ud' = d_username ud \<or> d_email ud' = d_email ud
                        \<longrightarrow> createUser hash' t1' t2' (snd (createUser hash t1 t2 s ud)) ud'
                              = (Inl (Error msg_user_exists), snd (createUser hash t1 t2 s ud)))"
    using c f n e again by blast
qed

lemma createUser_as_run:
  "run_calls hash t1 t2 [First, First] (Scanning ud, b, s)
     = (case createUser hash t1 t2 s ud of
          (Inl e, s') \<Rightarrow> (Thrown e, b, s')
        | (Inr user, s') \<Rightarrow> (Returned user, b, s'))"
  by (simp add: createUser_def split: option.splits prod.splits)

lemma new_store_scan: "createUser_scan (new_MemoryStore :: unit MemoryStore) teacher = None"
  by (simp add: createUser_scan_def new_MemoryStore_def map_values_def)

text \<open>
  Overlapping calls. When both scans run before either insertion, both calls return,
  whatever usernames and emails the two requests carry.
\<close>

lemma createUser_overlap:
  assumes "createUser_scan s ud = None" and "createUser_scan s ud' = None"
  shows "\<exists>u u' s'. run_calls hash t1 t2 [First, Second, First, Second]
                     (Scanning ud, Scanning ud', s) = (Returned u, Returned u', s')
           \<and> username u = d_username ud \<and> email u = d_email ud
           \<and> username u' = d_username ud' \<and> email u' = d_email ud'
           \<and> u \<in> set (map_values (users s')) \<and> u' \<in> set (map_values (users s'))"
proof -
  have ins: "\<exists>u s1. createUser_insert h t1 t2 s0 d = (u, s1) \<and> username u = d_username d
      \<and> email u = d_email d \<and> map_get (users s1) (u_id u) = Some u
      \<and> userIdCounter s1 = userIdCounter s0 + 1
      \<and> u_id u = js ''user_'' @ decimal (userIdCounter s0)"
    for h s0 d
    by (simp add: createUser_insert_def generateUserId_def Let_def map_get_map_set)
  from ins [of "hash (d_password ud)" s ud] obtain u s1 where
    1: "createUser_insert (hash (d_password ud)) t1 t2 s ud = (u, s1)"
    and u: "username u = d_username ud" "email u = d_email ud"
    and g1: "map_get (users s1) (u_id u) = Some u"
    and c1: "userIdCounter s1 = userIdCounter s + 1"
    and k1: "u_id u = js ''user_'' @ decimal (userIdCounter s)" by blast
  from ins [of "hash (d_password ud')" s1 ud'] obtain u' s2 where
    2: "createUser_insert (hash (d_password ud')) t1 t2 s1 ud' = (u', s2)"
    and u': "username u' = d_username ud'" "email u' = d_email ud'"
    and g2: "map_get (users s2) (u_id u') = Some u'"
    and k2: "u_id u' = js ''user_'' @ decimal (userIdCounter s1)" by blast
  have ne: "u_id u \<noteq> u_id u'" using k1 k2 c1 by (simp add: decimal_inj)
  have s2: "users s2 = map_set (users s1) (u_id u') u'"
    using 2 by (auto simp: createUser_insert_def generateUserId_def Let_def)
  have "map_get (users s2) (u_id u) = Some u"
    using g1 ne by (simp add: s2 map_get_map_set)
  then have m1: "u \<in> set (map_values (users s2))"
    unfolding map_get_def map_values_def by (force dest: map_of_SomeD)
  have m2: "u' \<in> set (map_values (users s2))"
    using g2 unfolding map_get_def map_values_def by (force dest: map_of_SomeD)
  have "run_calls hash t1 t2 [First, Second, First, Second] (Scanning ud, Scanning ud', s)
      = (Returned u, Returned u', s2)"
    using assms 1 2 by simp
  then show ?thesis using u u' m1 m2 by blast
qed

text \<open>
  Claim C1, at a failing input. Two registrations with the same username and email reach
  the empty store, the second before the hash of the first has arrived: both scans find
  no user, both calls return, and the store holds \<open>user_1\<close> and \<open>user_2\<close> with the same
  username and email; the handler answers 201 to both. Without the overlap the second
  call throws and the handler answers 400.
\<close>

theorem createUser_race:
  "run_calls (\<lambda>p. p) 0 0 [First, Second, First, Second]
       (Scanning teacher, Scanning teacher, new_MemoryStore :: unit MemoryStore)
     = (Returned (race_user (js ''user_1'')), Returned (race_user (js ''user_2'')),
        \<lparr>users = [(js ''user_1'', race_user (js ''user_1'')),
                   (js ''user_2'', race_user (js ''user_2''))],
         userIdCounter = 3, resourceIdCounter = 1, resources = []\<rparr>)
   \<and> username (race_user (js ''user_1'')) = username (race_user (js ''user_2''))
   \<and> email (race_user (js ''user_1'')) = email (race_user (js ''user_2''))
   \<and> map_option status (register_response (\<lambda>i. i) (Returned (race_user (js ''user_1'')))) = Some 201
   \<and> map_option status (register_response (\<lambda>i. i) (Returned (race_user (js ''user_2'')))) = Some 201
   \<and> run_calls (\<lambda>p. p) 0 0 [First, First, Second, Second]
       (Scanning teacher, Scanning teacher, new_MemoryStore :: unit MemoryStore)
     = (Returned (race_user (js ''user_1'')), Thrown (Error msg_user_exists),
        \<lparr>users = [(js ''user_1'', race_user (js ''user_1''))],
         userIdCounter = 2, resourceIdCounter = 1, resources = []\<rparr>)
   \<and> register_response (\<lambda>i. i) (Thrown (Error msg_user_exists))
     = Some \<lparr>status = 400, success = False, message = Some msg_user_exists, data = None\<rparr>"
  by (simp add: createUser_scan_def createUser_insert_def generateUserId_def
      new_MemoryStore_def map_values_def teacher_def race_user_def js_eq_iff Let_def)
     (simp add: js_def decimal.simps)

subsection \<open>Listing resources of the volatile backend\<close>

lemma one_resource_store_resources:
  "resources one_resource_store =
     [quiz_data\<lparr>r_id := js ''resource_1'', createdAt := 1000, updatedAt := 1000\<rparr>]"
  by (simp add: one_resource_store_def createResource_def generateResourceId_def
      new_MemoryStore_def Let_def decimal.simps js_def)

lemma two_resource_store_resources:
  "resources two_resource_store =
     [quiz_data\<lparr>r_id := js ''resource_1'', createdAt := 1000, updatedAt := 1000\<rparr>,
      quiz_data\<lparr>r_id := js ''resource_2'', createdAt := 2000, updatedAt := 2000\<rparr>]"
  by (simp add: two_resource_store_def one_resource_store_def createResource_def
      generateResourceId_def new_MemoryStore_def Let_def decimal.simps js_def)

lemma findResources_empty_query:
  "findResources rt s empty_query \<lparr>sort' = None, skip = None, limit = None\<rparr> = resources s"
  by (simp add: findResources_def apply_pagination_def apply_sort_def apply_filters_def
      empty_query_def Let_def)

lemma apply_filters_matches:
  "apply_filters rt s q = filter (query_matches (toLowerCase rt) q) (resources s)"
  by (auto simp: apply_filters_def query_matches_def Let_def
      split: option.splits intro!: filter_cong)

lemma findResources_no_options:
  "findResources rt s q no_options = filter (query_matches (toLowerCase rt) q) (resources s)"
  by (simp add: findResources_def apply_pagination_def apply_sort_def no_options_def
      apply_filters_matches)

text \<open>
  Claim C10. \<open>countResources\<close> of a query is the length of \<open>findResources\<close> for that
  query without sort and pagination options, which is the number of stored records that
  match the query; the total that the listing handler reports on the volatile path is the
  number of records matching the query it built.
\<close>

theorem countResources_total:
  "countResources rt s q = length (findResources rt s q no_options)
   \<and> countResources rt s q = length (filter (query_matches (toLowerCase rt) q) (resources s))
   \<and> snd (getResources_memory rt s userId userRole ps)
       = length (filter (query_matches (toLowerCase rt) (getResources_query userId userRole ps))
           (resources s))"
  by (simp add: countResources_def getResources_memory_def Let_def findResources_no_options)

lemma findResources_paged:
  "0 < n \<Longrightarrow>
   findResources rt s q (opts\<lparr>skip := Some k, limit := Some n\<rparr>)
     = take n (drop k (findResources rt s q (opts\<lparr>skip := None, limit := None\<rparr>)))"
  by (simp add: findResources_def apply_pagination_def apply_sort_def Let_def array_slice_def
      drop_take)

lemma take_take_drop: "take n (drop k xs) @ take n (drop (k + n) xs) = take (2 * n) (drop k xs)"
proof -
  have "take (n + n) (drop k xs) = take n (drop k xs) @ take n (drop n (drop k xs))"
    by (rule take_add)
  then show ?thesis by (simp add: mult_2 add.commute)
qed

lemma pages_disjoint:
  assumes "distinct xs"
  shows "set (take n (drop k xs)) \<inter> set (take n (drop (k + n) xs)) = {}"
proof -
  have "distinct (drop k xs)" using assms by simp
  then have "set (take n (drop k xs)) \<inter> set (drop n (drop k xs)) = {}"
    by (rule set_take_disj_set_drop_if_distinct) simp
  moreover have "set (take n (drop (k + n) xs)) \<subseteq> set (drop n (drop k xs))"
    by (simp add: add.commute set_take_subset)
  ultimately show ?thesis by blast
qed

text \<open>
  Claim C7, as amended. For a fixed runtime, store, query and sort option, every \<open>k\<close>
  and every \<open>n \<ge> 1\<close>: the page \<open>skip = k, limit = n\<close> followed by the page
  \<open>skip = k + n, limit = n\<close> is the page \<open>skip = k, limit = 2n\<close>; the two pages are the
  adjacent segments \<open>[k, k + n)\<close> and \<open>[k + n, k + 2n)\<close> of the unpaginated result, and
  they share no record when that result has no repeated record.
\<close>

theorem findResources_pagination:
  assumes "0 < n"
  shows "findResources rt s q (opts\<lparr>skip := Some k, limit := Some n\<rparr>)
           @ findResources rt s q (opts\<lparr>skip := Some (k + n), limit := Some n\<rparr>)
         = findResources rt s q (opts\<lparr>skip := Some k, limit := Some (2 * n)\<rparr>)
       \<and> findResources rt s q (opts\<lparr>skip := Some k, limit := Some n\<rparr>)
           = take n (drop k (findResources rt s q (opts\<lparr>skip := None, limit := None\<rparr>)))
       \<and> findResources rt s q (opts\<lparr>skip := Some (k + n), limit := Some n\<rparr>)
           = take n (drop (k + n) (findResources rt s q (opts\<lparr>skip := None, limit := None\<rparr>)))
       \<and> (distinct (findResources rt s q (opts\<lparr>skip := None, limit := None\<rparr>))
            \<longrightarrow> set (findResources rt s q (opts\<lparr>skip := Some k, limit := Some n\<rparr>))
                  \<inter> set (findResources rt s q (opts\<lparr>skip := Some (k + n), limit := Some n\<rparr>)) = {})"
proof -
  have n2: "0 < 2 * n" using assms by simp
  show ?thesis
    unfolding findResources_paged [OF assms] findResources_paged [OF n2]
    by (simp add: take_take_drop pages_disjoint)
qed

theorem findResources_pagination_witness:
  "(0::nat) < 1
   \<and> findResources example_runtime two_resource_store empty_query
        \<lparr>sort' = None, skip = Some 0, limit = Some 1\<rparr>
      @ findResources example_runtime two_resource_store empty_query
        \<lparr>sort' = None, skip = Some (0 + 1), limit = Some 1\<rparr>
     = findResources example_runtime two_resource_store empty_query
        \<lparr>sort' = None, skip = Some 0, limit = Some (2 * 1)\<rparr>
   \<and> distinct (findResources example_runtime two_resource_store empty_query
        \<lparr>sort' = None, skip = None, limit = None\<rparr>)
   \<and> set (findResources example_runtime two_resource_store empty_query
        \<lparr>sort' = None, skip = Some 0, limit = Some 1\<rparr>)
     \<inter> set (findResources example_runtime two_resource_store empty_query
        \<lparr>sort' = None, skip = Some (0 + 1), limit = Some 1\<rparr>) = {}"
proof -
  have d: "distinct (findResources example_runtime two_resource_store empty_query
        \<lparr>sort' = None, skip = None, limit = None\<rparr>)"
    by (simp add: findResources_empty_query two_resource_store_resources quiz_data_def)
  have n: "(0::nat) < 1" by simp
  note t = findResources_pagination [OF n, where rt = example_runtime
      and s = two_resource_store and q = empty_query
      and opts = "\<lparr>sort' = None, skip = None, limit = None\<rparr>" and k = 0]
  have a: "findResources example_runtime two_resource_store empty_query
        \<lparr>sort' = None, skip = Some 0, limit = Some 1\<rparr>
      @ findResources example_runtime two_resource_store empty_query
        \<lparr>sort' = None, skip = Some (0 + 1), limit = Some 1\<rparr>
     = findResources example_runtime two_resource_store empty_query
        \<lparr>sort' = None, skip = Some 0, limit = Some (2 * 1)\<rparr>"
    using t [THEN conjunct1] by simp
  have c: "set (findResources example_runtime two_resource_store empty_query
        \<lparr>sort' = None, skip = Some 0, limit = Some 1\<rparr>)
     \<inter> set (findResources example_runtime two_resource_store empty_query
        \<lparr>sort' = None, skip = Some (0 + 1), limit = Some 1\<rparr>) = {}"
    using t [THEN conjunct2, THEN conjunct2, THEN conjunct2] d by simp
  show ?thesis by (intro conjI) (rule n a c d)+
qed

text \<open>
  Claim C7 as stated fails at \<open>n = 0\<close>: a limit of 0 is falsy, so with \<open>skip = 0\<close> no
  pagination is applied and each of the three calls returns the whole result; on a store
  with one resource the two pages together hold it twice.
\<close>

theorem findResources_pagination_counterexample:
  "findResources example_runtime one_resource_store empty_query
      \<lparr>sort' = None, skip = Some 0, limit = Some 0\<rparr>
    @ findResources example_runtime one_resource_store empty_query
      \<lparr>sort' = None, skip = Some (0 + 0), limit = Some 0\<rparr>
   \<noteq> findResources example_runtime one_resource_store empty_query
      \<lparr>sort' = None, skip = Some 0, limit = Some (2 * 0)\<rparr>"
  by (simp add: findResources_def apply_pagination_def apply_sort_def apply_filters_def
      one_resource_store_resources empty_query_def Let_def)

text \<open>
  Claim C3. For the query that \<open>getResources\<close> builds for an account with a non-empty
  identifier and no further filter, \<open>findResources\<close> returns a record exactly when it is
  stored and its creator is the account, or it is public, or the account's role is
  \<open>admin\<close>.
\<close>

theorem getResources_visibility:
  assumes "userId \<noteq> []"
  shows "R \<in> set (findResources rt s (getResources_query userId userRole no_params) no_options)
         \<longleftrightarrow> R \<in> set (resources s)
              \<and> (creator R = userId \<or> isPublic R = True \<or> userRole = js ''admin'')"
  using assms
  by (auto simp: findResources_no_options query_matches_def getResources_query_def
      no_params_def or_condition_def truthy_def)

theorem getResources_visibility_witness:
  "js ''user_2'' \<noteq> []
   \<and> set (findResources example_runtime two_resource_store
          (getResources_query (js ''user_2'') (js ''student'') no_params) no_options)
     = set (resources two_resource_store)"
proof -
  have ne: "js ''user_2'' \<noteq> []" by (simp add: js_def)
  have pub: "\<forall>R \<in> set (resources two_resource_store). isPublic R"
    by (simp add: two_resource_store_resources quiz_data_def)
  have "R \<in> set (findResources example_runtime two_resource_store
          (getResources_query (js ''user_2'') (js ''student'') no_params) no_options)
        \<longleftrightarrow> R \<in> set (resources two_resource_store)" for R
    using getResources_visibility [OF ne, where R = R and rt = example_runtime
        and s = two_resource_store and userRole = "js ''student''"] pub
    by blast
  then show ?thesis using ne by blast
qed

lemma set_slice_subset: "set (array_slice xs a b) \<subseteq> set xs"
  unfolding array_slice_def by (meson set_drop_subset set_take_subset subset_trans)

lemma set_apply_pagination: "set (apply_pagination opts xs) \<subseteq> set xs"
  by (simp add: apply_pagination_def Let_def set_slice_subset)

lemma set_apply_sort:
  assumes "\<And>c xs. set (array_sort rt c xs) \<subseteq> set xs"
  shows "set (apply_sort rt opts xs) \<subseteq> set xs"
  using assms by (simp add: apply_sort_def Let_def split: option.splits)

text \<open>
  Whatever filters, sort and page the request asks for, the listing handler returns on the
  volatile path only records that the account may see, provided the engine's sort returns
  elements of the array it was given.
\<close>

lemma getResources_memory_visible:
  assumes "\<And>c xs. set (array_sort rt c xs) \<subseteq> set xs" and "userId \<noteq> []"
    and "R \<in> set (fst (getResources_memory rt s userId userRole ps))"
  shows "R \<in> set (resources s)
       \<and> (creator R = userId \<or> isPublic R \<or> userRole = js ''admin'')"
proof -
  from assms(3) set_apply_pagination set_apply_sort [OF assms(1)]
  have "R \<in> set (apply_filters rt s (getResources_query userId userRole ps))"
    unfolding getResources_memory_def findResources_def Let_def by fastforce
  then show ?thesis using assms(2)
    by (auto simp: apply_filters_matches query_matches_def getResources_query_def
      or_condition_def truthy_def split: if_splits)
qed

subsection \<open>Sorting in the volatile backend\<close>

lemma compareFn_never_zero: "compareFn lt sortKey sortOrder a b \<noteq> 0"
  by (simp add: compareFn_def Let_def)

lemma str_lt_irrefl: "\<not> str_lt a a"
  by (induction a) auto

lemma compareFn_tie:
  assumes "\<And>x. \<not> lt x x" and "get_field sortKey a = get_field sortKey b"
  shows "compareFn lt sortKey sortOrder a b = - 1 \<and> compareFn lt sortKey sortOrder b a = - 1"
proof -
  have "\<not> js_lt lt v v" for v :: "'a jsval"
  proof (cases v)
    case (Number n)
    then show ?thesis by (cases n) auto
  qed (auto simp: str_lt_irrefl assms(1))
  then show ?thesis using assms(2) by (simp add: compareFn_def Let_def)
qed

text \<open>
  Claim C6, at a failing input. Two stored resources have the same title; the store holds
  them in the order \<open>resource_1\<close>, \<open>resource_2\<close>. Sorted by title in ascending order on
  the engine's sort, \<open>findResources\<close> returns \<open>resource_2\<close> before \<open>resource_1\<close>: the
  comparator answers \<open>-1\<close> for a tie, whichever way round it is asked.
\<close>

theorem findResources_sort_ties:
  "map title (resources two_resource_store) = [js ''Quiz'', js ''Quiz'']
   \<and> map r_id (resources two_resource_store) = [js ''resource_1'', js ''resource_2'']
   \<and> map r_id (findResources example_runtime two_resource_store empty_query
         \<lparr>sort' = Some [(js ''title'', 1)], skip = None, limit = None\<rparr>)
       = [js ''resource_2'', js ''resource_1'']"
  by (simp add: findResources_def apply_pagination_def apply_sort_def apply_filters_def
      two_resource_store_resources quiz_data_def empty_query_def
      example_runtime_def v8_sort_def compareFn_def get_field_def js_eq_iff Let_def
      str_lt_irrefl)

subsection \<open>Reading a resource\<close>

lemma getResourceById_persistent:
  assumes "available db" "collection db i = Some d" "doc_id d = i"
    and "doc_creator d = userId \<or> doc_isPublic d \<or> userRole = js ''admin''"
  shows "\<exists>d'. collection (fst (snd (getResourceById db ms i userId userRole))) i = Some d'
          \<and> views d' = (if doc_creator d = userId then views d else views d + 1)
          \<and> status (fst (getResourceById db ms i userId userRole)) = 200"
  using assms by (auto simp: getResourceById_def findById_def save_def Let_def)

lemma find_index_update:
  "find P xs = Some x \<Longrightarrow> P y
     \<Longrightarrow> \<exists>k. find_index P xs = Some k \<and> find P (xs[k := y]) = Some y"
proof (induction xs)
  case Nil
  then show ?case by simp
next
  case (Cons a xs)
  show ?case
  proof (cases "P a")
    case True
    then show ?thesis using Cons.prems by simp
  next
    case False
    with Cons obtain k where "find_index P xs = Some k" and "find P (xs[k := y]) = Some y"
      by auto
    with False show ?thesis by simp
  qed
qed

lemma getResourceById_volatile:
  assumes "findById db i = Inl e" "findResourceById ms i = Some r"
    and "creator r \<noteq> userId" and "isPublic r \<or> userRole = js ''admin''"
  shows "status (fst (getResourceById db ms i userId userRole)) = 500
       \<and> findResourceById (snd (snd (getResourceById db ms i userId userRole))) i
           = Some (r\<lparr>views_prop := Some (plus_one (views_prop r))\<rparr>)"
proof -
  have ri: "r_id r = i" using assms(2) unfolding findResourceById_def
    by (metis (mono_tags, lifting) find_Some_iff)
  from find_index_update [OF assms(2) [unfolded findResourceById_def],
      of "r\<lparr>views_prop := Some (plus_one (views_prop r))\<rparr>"] ri
  obtain k where k: "find_index (\<lambda>x. r_id x = i) (resources ms) = Some k"
    and f: "find (\<lambda>x. r_id x = i)
              ((resources ms)[k := r\<lparr>views_prop := Some (plus_one (views_prop r))\<rparr>])
            = Some (r\<lparr>views_prop := Some (plus_one (views_prop r))\<rparr>)"
    by auto
  show ?thesis using assms k f
    by (auto simp: getResourceById_def Let_def findResourceById_def)
qed

text \<open>
  The same read while the persistent backend is available: \<open>resource_1\<close> is not an
  ObjectId, \<open>findById\<close> throws the cast error, and the handler takes the volatile path.
\<close>

lemma getResourceById_memory_id:
  "findById \<lparr>available = True, castable = mongoIdPattern, collection = Map.empty\<rparr>
       (js ''resource_1'') = (Inl (Error msg_cast) :: error + unit IResource option)
   \<and> status (fst (getResourceById
         \<lparr>available = True, castable = mongoIdPattern, collection = Map.empty\<rparr>
         one_resource_store (js ''resource_1'') (js ''user_2'') (js ''student''))) = 500"
proof -
  have c: "findById \<lparr>available = True, castable = mongoIdPattern, collection = Map.empty\<rparr>
       (js ''resource_1'') = (Inl (Error msg_cast) :: error + unit IResource option)"
    by (simp add: findById_def mongoIdPattern_def js_def)
  have f: "findResourceById one_resource_store (js ''resource_1'')
     = Some (quiz_data\<lparr>r_id := js ''resource_1'', createdAt := 1000, updatedAt := 1000\<rparr>)"
    by (simp add: findResourceById_def one_resource_store_resources)
  have o: "creator (quiz_data\<lparr>r_id := js ''resource_1'', createdAt := 1000, updatedAt := 1000\<rparr>)
      \<noteq> js ''user_2''"
    by (simp add: quiz_data_def js_eq_iff)
  have v: "isPublic (quiz_data\<lparr>r_id := js ''resource_1'', createdAt := 1000, updatedAt := 1000\<rparr>)
      \<or> js ''student'' = js ''admin''"
    by (simp add: quiz_data_def)
  from getResourceById_volatile [OF c f o v] c show ?thesis by simp
qed

text \<open>
  Claim C4, at a failing input. The persistent backend throws, the volatile backend holds
  the public \<open>resource_1\<close> of \<open>user_1\<close> without a \<open>views\<close> property, and \<open>user_2\<close>
  reads it: the handler answers 500 and leaves \<open>views = NaN\<close> in the stored object.
\<close>

theorem getResourceById_volatile_non_owner:
  "findResourceById one_resource_store (js ''resource_1'')
     = Some (quiz_data\<lparr>r_id := js ''resource_1'', createdAt := 1000, updatedAt := 1000\<rparr>)
   \<and> getResourceById \<lparr>available = False, castable = mongoIdPattern, collection = Map.empty\<rparr> one_resource_store
        (js ''resource_1'') (js ''user_2'') (js ''student'')
     = (\<lparr>status = 500, success = False, message = Some msg_detail_failed, data = None\<rparr>,
        \<lparr>available = False, castable = mongoIdPattern, collection = Map.empty\<rparr>,
        one_resource_store\<lparr>resources :=
          [quiz_data\<lparr>r_id := js ''resource_1'', createdAt := 1000, updatedAt := 1000,
                     views_prop := Some NaN\<rparr>]\<rparr>)"
  by (simp add: getResourceById_def findById_def findResourceById_def
      one_resource_store_resources quiz_data_def js_eq_iff Let_def)

subsection \<open>Likes\<close>

lemma toggle_like_mem: "userId \<in> set (toggle_like userId ls) \<longleftrightarrow> userId \<notin> set ls"
  by (simp add: toggle_like_def)

lemma toggle_like_count:
  "count_list (toggle_like userId ls) userId = (if userId \<in> set ls then 0 else 1)"
  by (simp add: toggle_like_def count_list_0_iff)

lemma toggle_like_iter_mem:
  "userId \<in> set ((toggle_like userId ^^ N) ls) \<longleftrightarrow> ((userId \<in> set ls) \<noteq> odd N)"
  by (induction N) (auto simp: toggle_like_mem)

lemma toggle_like_iter_count:
  assumes "userId \<notin> set ls"
  shows "count_list ((toggle_like userId ^^ N) ls) userId = N mod 2"
proof (cases N)
  case 0
  then show ?thesis using assms by (simp add: count_list_0_iff)
next
  case (Suc M)
  have "count_list ((toggle_like userId ^^ Suc M) ls) userId
      = (if userId \<in> set ((toggle_like userId ^^ M) ls) then 0 else 1)"
    by (simp add: toggle_like_count)
  also have "\<dots> = (if odd M then 0 else 1)"
    using assms by (simp add: toggle_like_iter_mem)
  also have "\<dots> = Suc M mod 2" by (simp add: mod2_Suc_Suc odd_iff_mod_2_eq_one) presburger
  finally show ?thesis using Suc by simp
qed

lemma count_list_filter_other:
  "other \<noteq> userId \<Longrightarrow> count_list (filter (\<lambda>like. like \<noteq> userId) ls) other = count_list ls other"
  by (induction ls) auto

lemma toggle_like_others:
  "other \<noteq> userId \<Longrightarrow> count_list (toggle_like userId ls) other = count_list ls other"
  by (simp add: toggle_like_def count_list_filter_other)

lemma toggle_like_iter_empty:
  "length ((toggle_like userId ^^ N) []) = N mod 2"
proof -
  have "(toggle_like userId ^^ N) [] = (if odd N then [userId] else [])"
    by (induction N) (auto simp: toggle_like_def)
  then show ?thesis by (simp add: odd_iff_mod_2_eq_one)
qed

lemma likeResource_available:
  assumes "available db" "collection db i = Some r" "doc_id r = i"
  shows "available (snd (likeResource db i userId))
       \<and> collection (snd (likeResource db i userId)) i
           = Some (r\<lparr>likes := toggle_like userId (likes r)\<rparr>)"
  using assms by (simp add: likeResource_def findById_def save_def Let_def)

lemma like_times_state:
  assumes "available db" "collection db i = Some r" "doc_id r = i"
  shows "available (like_times N db i userId)
       \<and> collection (like_times N db i userId) i
           = Some (r\<lparr>likes := (toggle_like userId ^^ N) (likes r)\<rparr>)"
proof (induction N)
  case 0
  then show ?case using assms by simp
next
  case (Suc N)
  then have av: "available (like_times N db i userId)"
    and co: "collection (like_times N db i userId) i
           = Some (r\<lparr>likes := (toggle_like userId ^^ N) (likes r)\<rparr>)" by blast+
  have di: "doc_id (r\<lparr>likes := (toggle_like userId ^^ N) (likes r)\<rparr>) = i"
    using assms(3) by simp
  from likeResource_available [OF av co di, of userId] show ?case by simp
qed

text \<open>
  Claim C8. On an available persistent backend holding the resource, after \<open>N\<close>
  successive calls of \<open>likeResource\<close> by one account the stored \<open>likes\<close> list is the
  \<open>N\<close>-fold toggle of the initial one: the account is a member exactly when its initial
  membership differs from the parity of \<open>N\<close>; from the unliked state the account occurs
  \<open>N mod 2\<close> times, and from the empty list the length is \<open>N mod 2\<close>.
\<close>

theorem likeResource_toggle:
  assumes "available db" and "collection db i = Some r" and "doc_id r = i"
  shows "\<exists>r'. collection (like_times N db i userId) i = Some r'
           \<and> likes r' = (toggle_like userId ^^ N) (likes r)
           \<and> (userId \<in> set (likes r') \<longleftrightarrow> ((userId \<in> set (likes r)) \<noteq> odd N))
           \<and> (userId \<notin> set (likes r) \<longrightarrow> count_list (likes r') userId = N mod 2)
           \<and> (likes r = [] \<longrightarrow> length (likes r') = N mod 2)"
  using like_times_state [OF assms, of N userId]
  by (simp add: toggle_like_iter_mem toggle_like_iter_count toggle_like_iter_empty)

lemma like_doc_id_castable: "mongoIdPattern (doc_id like_doc)"
  by (simp add: like_doc_def mongoIdPattern_def hex_digit_def js_def)

theorem likeResource_toggle_witness:
  "available \<lparr>available = True, castable = mongoIdPattern,
       collection = [js ''65a1b2c3d4e5f60718293a4b'' \<mapsto> like_doc]\<rparr>
   \<and> doc_id like_doc = js ''65a1b2c3d4e5f60718293a4b''
   \<and> js ''user_2'' \<notin> set (likes like_doc)
   \<and> (\<exists>r'. collection (like_times 3 \<lparr>available = True, castable = mongoIdPattern,
       collection = [js ''65a1b2c3d4e5f60718293a4b'' \<mapsto> like_doc]\<rparr>
              (js ''65a1b2c3d4e5f60718293a4b'') (js ''user_2'')) (js ''65a1b2c3d4e5f60718293a4b'') = Some r'
          \<and> js ''user_2'' \<in> set (likes r')
          \<and> count_list (likes r') (js ''user_2'') = 1)"
proof -
  let ?db = "\<lparr>available = True, castable = mongoIdPattern,
       collection = [js ''65a1b2c3d4e5f60718293a4b'' \<mapsto> like_doc]\<rparr>"
  have a: "available ?db" by simp
  have c: "collection ?db (js ''65a1b2c3d4e5f60718293a4b'') = Some like_doc" by simp
  have d: "doc_id like_doc = js ''65a1b2c3d4e5f60718293a4b''" by (simp add: like_doc_def)
  have n: "js ''user_2'' \<notin> set (likes like_doc)" by (simp add: like_doc_def js_eq_iff)
  from likeResource_toggle [OF a c d, of 3 "js ''user_2''"] n
  obtain r' where "collection (like_times 3 ?db (js ''65a1b2c3d4e5f60718293a4b'') (js ''user_2'')) (js ''65a1b2c3d4e5f60718293a4b'') = Some r'"
    and "js ''user_2'' \<in> set (likes r')" and "count_list (likes r') (js ''user_2'') = 1"
    by auto
  then show ?thesis using a d n by blast
qed

subsection \<open>Generation dispatcher\<close>

lemma js_Nil_iff: "js s = [] \<longleftrightarrow> s = []"
  by (simp add: js_def)

lemma new_AIService_mock:
  "map_get (providers (new_AIService k1 k2)) (js ''mock'') = Some MockProvider"
  by (simp add: new_AIService_def Let_def map_get_map_set)

lemma Mock_generateText_result:
  "\<exists>r. Mock_generateText apis request = Inr r \<and> g_provider r = js ''mock''
        \<and> isMock (g_metadata r) = Some True"
  by (simp add: Mock_generateText_def Let_def)

lemma Mock_generateImage_result:
  "\<exists>r. Mock_generateImage apis request = Inr r \<and> g_provider r = js ''mock''
        \<and> isMock (g_metadata r) = Some True"
  by (simp add: Mock_generateImage_def)

text \<open>
  Claim C2. For the service that the constructor builds, whatever the two API keys, and a
  request whose \<open>provider\<close> is a non-empty name without registered adapter,
  \<open>generateContent\<close> looks the adapter \<open>mock\<close> up, finds the mock adapter and returns
  what that adapter returns for the request (its \<open>generateImage\<close> for type \<open>image\<close>,
  its \<open>generateText\<close> otherwise). That is a result, not an error; its provider is
  \<open>mock\<close> and its metadata has \<open>isMock = true\<close>.
\<close>

theorem generateContent_fallback:
  assumes "provider request = Some name" and "name \<noteq> []"
    and "\<not> isProviderAvailable (new_AIService openai_key claude_key) name"
  shows "map_get (providers (new_AIService openai_key claude_key)) (js ''mock'') = Some MockProvider
       \<and> generateContent apis (new_AIService openai_key claude_key) request
           = (if req_type request = js ''image''
              then the (generateImage MockProvider) apis request
              else generateText MockProvider apis request)
       \<and> generateContent apis (new_AIService openai_key claude_key) request
           = (if req_type request = js ''image'' then Mock_generateImage apis request
              else Mock_generateText apis request)
       \<and> (\<exists>r. generateContent apis (new_AIService openai_key claude_key) request = Inr r
              \<and> g_provider r = js ''mock'' \<and> isMock (g_metadata r) = Some True
              \<and> g_model r = (if req_type request = js ''image'' then js ''mock-image-model''
                              else js ''mock-model'')
              \<and> promptTokens (usage r) = length (prompt request)
              \<and> finishReason (g_metadata r) = js ''stop'')"
proof -
  have "or_else (provider request) (js ''openai'') = name"
    using assms(1,2) by (simp add: or_else_def truthy_def)
  then have g: "generateContent apis (new_AIService openai_key claude_key) request
      = (if req_type request = js ''image'' then Mock_generateImage apis request
         else Mock_generateText apis request)"
    using assms(3)
    by (simp add: generateContent_def isProviderAvailable_def Let_def new_AIService_mock)
  have r: "\<exists>r. (if req_type request = js ''image'' then Mock_generateImage apis request
              else Mock_generateText apis request) = Inr r
              \<and> g_provider r = js ''mock'' \<and> isMock (g_metadata r) = Some True
              \<and> g_model r = (if req_type request = js ''image'' then js ''mock-image-model''
                              else js ''mock-model'')
              \<and> promptTokens (usage r) = length (prompt request)
              \<and> finishReason (g_metadata r) = js ''stop''"
    by (simp add: Mock_generateText_def Mock_generateImage_def Let_def)
  show ?thesis
    unfolding g using r by (simp add: new_AIService_mock)
qed

lemma providers_with_keys:
  "providers (new_AIService (Some (js ''sk-1'')) (Some (js ''sk-2'')))
     = [(js ''openai'', OpenAIProvider), (js ''claude'', ClaudeProvider), (js ''mock'', MockProvider)]"
  by (simp add: new_AIService_def Let_def truthy_def js_eq_iff js_Nil_iff)

lemma providers_claude_only:
  "providers (new_AIService None (Some (js ''sk-2'')))
     = [(js ''claude'', ClaudeProvider), (js ''mock'', MockProvider)]"
  by (simp add: new_AIService_def Let_def truthy_def js_eq_iff js_Nil_iff)

theorem generateContent_fallback_witness:
  "provider nonexistent_request = Some (js ''nonexistent'') \<and> js ''nonexistent'' \<noteq> []
   \<and> \<not> isProviderAvailable (new_AIService (Some (js ''sk-1'')) (Some (js ''sk-2'')))
         (js ''nonexistent'')
   \<and> generateContent failing_apis (new_AIService (Some (js ''sk-1'')) (Some (js ''sk-2'')))
         nonexistent_request
       = Mock_generateText failing_apis nonexistent_request
   \<and> (\<exists>r. generateContent failing_apis (new_AIService (Some (js ''sk-1'')) (Some (js ''sk-2'')))
               nonexistent_request = Inr r
          \<and> g_provider r = js ''mock'' \<and> isMock (g_metadata r) = Some True)"
proof -
  have p: "provider nonexistent_request = Some (js ''nonexistent'')"
    by (simp add: nonexistent_request_def)
  have n: "js ''nonexistent'' \<noteq> []" by (simp add: js_Nil_iff)
  have a: "\<not> isProviderAvailable (new_AIService (Some (js ''sk-1'')) (Some (js ''sk-2'')))
         (js ''nonexistent'')"
    by (simp add: isProviderAvailable_def map_has_def providers_with_keys js_eq_iff)
  have t: "req_type nonexistent_request \<noteq> js ''image''"
    by (simp add: nonexistent_request_def js_eq_iff)
  note th = generateContent_fallback [OF p n a, of failing_apis]
  have e: "generateContent failing_apis (new_AIService (Some (js ''sk-1'')) (Some (js ''sk-2'')))
         nonexistent_request
       = Mock_generateText failing_apis nonexistent_request"
    using th t by simp
  have r: "\<exists>r. generateContent failing_apis (new_AIService (Some (js ''sk-1'')) (Some (js ''sk-2'')))
               nonexistent_request = Inr r
          \<and> g_provider r = js ''mock'' \<and> isMock (g_metadata r) = Some True"
    using th by blast
  show ?thesis using p n a e r by blast
qed

text \<open>
  Claim C5, as amended. A request of type \<open>image\<close> that names a registered adapter
  without \<open>generateImage\<close> is passed to that adapter's \<open>generateText\<close>, and the
  dispatcher returns its outcome. The adapter is the Claude one, so the outcome is a result
  of provider \<open>claude\<close> or the adapter's generic failure error; no error about the
  missing capability is raised.
\<close>

theorem generateContent_image_without_capability:
  assumes "provider request = Some name" and "name \<noteq> []"
    and "map_get (providers svc) name = Some adapter"
    and "generateImage adapter = None"
    and "req_type request = js ''image''"
  shows "generateContent apis svc request = generateText adapter apis request
       \<and> adapter = ClaudeProvider
       \<and> (generateContent apis svc request = Inl (Error msg_claude_failed)
          \<or> (\<exists>r. generateContent apis svc request = Inr r \<and> g_provider r = js ''claude''))"
proof -
  have n: "or_else (provider request) (js ''openai'') = name"
    using assms(1,2) by (simp add: or_else_def truthy_def)
  have h: "map_has (providers svc) name"
    using assms(3) by (simp add: map_has_def map_get_def)
  have g: "generateContent apis svc request = generateText adapter apis request"
    using assms(3,4) n h by (simp add: generateContent_def Let_def)
  have c: "adapter = ClaudeProvider" using assms(4) by (cases adapter) simp_all
  have "Claude_generateText apis request = Inl (Error msg_claude_failed)
          \<or> (\<exists>r. Claude_generateText apis request = Inr r \<and> g_provider r = js ''claude'')"
    by (simp add: Claude_generateText_def split: sum.splits)
  then show ?thesis using g c by simp
qed

theorem generateContent_image_without_capability_witness:
  "provider claude_image_request = Some (js ''claude'') \<and> js ''claude'' \<noteq> []
   \<and> map_get (providers (new_AIService None (Some (js ''sk-2'')))) (js ''claude'') = Some ClaudeProvider
   \<and> generateImage ClaudeProvider = None
   \<and> req_type claude_image_request = js ''image''
   \<and> generateContent answering_apis (new_AIService None (Some (js ''sk-2''))) claude_image_request
       = generateText ClaudeProvider answering_apis claude_image_request"
proof -
  have p: "provider claude_image_request = Some (js ''claude'')"
    by (simp add: claude_image_request_def)
  have n: "js ''claude'' \<noteq> []" by (simp add: js_Nil_iff)
  have m: "map_get (providers (new_AIService None (Some (js ''sk-2'')))) (js ''claude'')
      = Some ClaudeProvider"
    by (simp add: providers_claude_only map_get_def)
  have g: "generateImage ClaudeProvider = None" by simp
  have t: "req_type claude_image_request = js ''image''"
    by (simp add: claude_image_request_def)
  from generateContent_image_without_capability [OF p n m g t, of answering_apis] p n m g t
  show ?thesis by blast
qed

text \<open>
  Claim C5 as stated fails: with only the Claude key set and the Anthropic endpoint
  answering, an image request for \<open>claude\<close> returns the text result.
\<close>

theorem generateContent_image_counterexample:
  "req_type claude_image_request = js ''image''
   \<and> map_get (providers (new_AIService None (Some (js ''sk-2'')))) (js ''claude'') = Some ClaudeProvider
   \<and> generateImage ClaudeProvider = None
   \<and> generateContent answering_apis (new_AIService None (Some (js ''sk-2''))) claude_image_request
       = Inr \<lparr>g_id = js ''claude_1700000000000'',
               g_content = js ''A cat is a small animal.'',
               g_provider = js ''claude'',
               g_model = js ''claude-3-sonnet-20240229'',
               usage = \<lparr>promptTokens = 3, completionTokens = 7, totalTokens = 10\<rparr>,
               g_metadata = \<lparr>finishReason = js ''end_turn'', responseTime = 1700000000000,
                              isMock = None, meta_imageSize = None, meta_imageQuality = None,
                              meta_imageStyle = None\<rparr>\<rparr>"
proof -
  have d: "int_decimal 1700000000000 = js ''1700000000000''"
    by (simp add: int_decimal_def decimal.simps js_def)
  show ?thesis
    by (simp add: generateContent_def providers_claude_only Let_def claude_image_request_def
      answering_apis_def Claude_generateText_def or_else_def or_zero_def truthy_def map_has_def
      map_get_def js_eq_iff js_Nil_iff d) (simp add: js_def)
qed

subsection \<open>Backend selector\<close>

lemma shouldUseMemoryStore_unresolved:
  "modules p (js ''mongoose'') = None
     \<Longrightarrow> shouldUseMemoryStore p = (Inl (Error (js ''Cannot find module '' @ js ''mongoose'')), p)"
  by (simp add: shouldUseMemoryStore_def require_module_def)




end
